theory Spec2Isabelle
  imports Main "HOL-Library.AList"
begin

section \<open>Python values, dictionaries and exceptions\<close>

text \<open>
  The job table \<open>JOB_DB\<close> is a Python dictionary from job ids to job dictionaries; a job
  dictionary is a deep copy of the JSON body of the create request, with further keys
  written by \<open>create_job\<close> and by the two watchers. Dictionaries are association lists
  (insertion order, as Python keeps it); a missing key raises \<open>KeyError\<close>.
\<close>

datatype exn = KeyError | IndexError | TypeError | AttributeError | ValueError

text \<open>
  What the pod watcher reads of a pod: \<open>pod.name\<close> and
  \<open>pod.obj['status']['containerStatuses'][0]\<close> with its \<open>restartCount\<close> and
  \<open>state\<close>. Every dictionary key that may be missing is an option (\<open>None\<close>: no such key).
\<close>

record terminated_state =
  exitCode :: "int option"

record container_state =
  terminated :: "terminated_state option"

record container_status =
  restartCount :: "int option"
  state :: "container_state option"

record pod_status =
  containerStatuses :: "container_status list option"

record pod =
  pod_name :: string
  pod_obj_status :: "pod_status option"

datatype pyval =
    PNone
  | PBool bool
  | PInt int
  | PStr string
  | PList "pyval list"
  | PDict "(string \<times> pyval) list"
  | PJob string
  | PPod pod

type_synonym pydict = "(string \<times> pyval) list"

type_synonym job_db = "(string \<times> pydict) list"

text \<open>Python truth value testing (\<open>if x\<close>, \<open>not x\<close>); objects of the cluster library are true.\<close>

fun truthy :: "pyval \<Rightarrow> bool" where
  "truthy PNone = False"
| "truthy (PBool b) = b"
| "truthy (PInt i) = (i \<noteq> 0)"
| "truthy (PStr s) = (s \<noteq> [])"
| "truthy (PList xs) = (xs \<noteq> [])"
| "truthy (PDict d) = (d \<noteq> [])"
| "truthy (PJob h) = True"
| "truthy (PPod p) = True"

text \<open>\<open>d.get(k)\<close>: the value, or Python's \<open>None\<close>.\<close>

definition py_get :: "pydict \<Rightarrow> string \<Rightarrow> pyval" where
  "py_get d k = (case map_of d k of None \<Rightarrow> PNone | Some v \<Rightarrow> v)"

text \<open>\<open>d[k]\<close>.\<close>

definition py_item :: "('k \<times> 'v) list \<Rightarrow> 'k \<Rightarrow> exn + 'v" where
  "py_item d k = (case map_of d k of None \<Rightarrow> Inl KeyError | Some v \<Rightarrow> Inr v)"

text \<open>\<open>k in d\<close>.\<close>

definition py_in :: "'k \<Rightarrow> ('k \<times> 'v) list \<Rightarrow> bool" where
  "py_in k d = (map_of d k \<noteq> None)"

text \<open>\<open>d[k] = v\<close>: overwrite in place, or append a new key.\<close>

definition py_set :: "('k \<times> 'v) list \<Rightarrow> 'k \<Rightarrow> 'v \<Rightarrow> ('k \<times> 'v) list" where
  "py_set d k v = AList.update k v d"

text \<open>\<open>del d[k]\<close>.\<close>

definition py_del :: "pydict \<Rightarrow> string \<Rightarrow> exn + pydict" where
  "py_del d k = (if py_in k d then Inr (AList.delete k d) else Inl KeyError)"

section \<open>app.py: the REST surface\<close>

text \<open>
  A response is a status code with a JSON body, \<open>abort(code)\<close>, or an exception that no
  handler catches, which the web framework answers with status 500.
\<close>

datatype response = Response nat pyval | Abort nat | Unhandled exn

fun status_code :: "response \<Rightarrow> nat" where
  "status_code (Response c b) = c"
| "status_code (Abort c) = c"
| "status_code (Unhandled e) = 500"

text \<open>
  The body of the loop of \<open>filter_jobs\<close> on one job of the (deep) copy: \<open>obj\<close> and
  \<open>deleted\<close> are deleted, \<open>pod\<close> is deleted when \<open>.get('pod')\<close> is true.
  \<open>copy.deepcopy\<close> is the identity on values.
\<close>

definition filter_job :: "pydict \<Rightarrow> exn + pydict" where
  "filter_job job =
     (case py_del job ''obj'' of Inl e \<Rightarrow> Inl e | Inr job1 \<Rightarrow>
      (case py_del job1 ''deleted'' of Inl e \<Rightarrow> Inl e | Inr job2 \<Rightarrow>
       (if truthy (py_get job2 ''pod'')
        then py_del job2 ''pod''
        else Inr job2)))"

fun filter_jobs :: "job_db \<Rightarrow> exn + job_db" where
  "filter_jobs [] = Inr []"
| "filter_jobs ((job_name, job) # job_db) =
     (case filter_job job of Inl e \<Rightarrow> Inl e | Inr job_copy \<Rightarrow>
      (case filter_jobs job_db of Inl e \<Rightarrow> Inl e | Inr rest \<Rightarrow>
       Inr ((job_name, job_copy) # rest)))"


definition get_job :: "job_db \<Rightarrow> string \<Rightarrow> response" where
  "get_job JOB_DB job_id =
     (case map_of JOB_DB job_id of
        None \<Rightarrow> Abort 404
      | Some job_copy \<Rightarrow>
         (case py_del job_copy ''obj'' of Inl e \<Rightarrow> Unhandled e | Inr job1 \<Rightarrow>
          (case py_del job1 ''deleted'' of Inl e \<Rightarrow> Unhandled e | Inr job2 \<Rightarrow>
           (if truthy (py_get job2 ''pod'')
            then (case py_del job2 ''pod'' of
                    Inl e \<Rightarrow> Unhandled e
                  | Inr job3 \<Rightarrow> Response 200 (PDict [(''job'', PDict job3)]))
            else Response 200 (PDict [(''job'', PDict job2)])))))"

text \<open>
  \<open>instantiate_job\<close> of k8s.py is declared with the single parameter \<open>job_manifest\<close>.
  A Python call binds the positional and keyword arguments to the parameters before the
  body runs and raises \<open>TypeError\<close> when they do not fit. The body asks the backend to
  create the workload: the parameter \<open>backend_create\<close> is the backend's answer, the
  handle of the created object or \<open>None\<close> for the HTTP error that the body catches.
\<close>

record py_args =
  positional_args :: "pyval list"
  keyword_args :: "(string \<times> pyval) list"

definition bind_job_manifest :: "py_args \<Rightarrow> exn + pyval" where
  "bind_job_manifest args =
     (case (positional_args args, keyword_args args) of
        ([job_manifest], []) \<Rightarrow> Inr job_manifest
      | ([], [(k, job_manifest)]) \<Rightarrow>
          (if k = ''job_manifest'' then Inr job_manifest else Inl TypeError)
      | _ \<Rightarrow> Inl TypeError)"

definition instantiate_job :: "(pyval \<Rightarrow> string option) \<Rightarrow> py_args \<Rightarrow> exn + pyval" where
  "instantiate_job backend_create args =
     (case bind_job_manifest args of
        Inl e \<Rightarrow> Inl e
      | Inr job_manifest \<Rightarrow>
         (case backend_create job_manifest of
            Some job_obj \<Rightarrow> Inr (PJob job_obj)
          | None \<Rightarrow> Inr PNone))"

text \<open>
  \<open>create_job\<close>: \<open>request_json\<close> is \<open>request.json\<close> (\<open>None\<close> when the request has no JSON
  body, else a JSON object), \<open>job_id\<close> the fresh \<open>uuid4\<close>. The result is the response and
  the job table afterwards.
\<close>

definition create_job ::
  "(pyval \<Rightarrow> string option) \<Rightarrow> string \<Rightarrow> pydict option \<Rightarrow> job_db \<Rightarrow> response \<times> job_db" where
  "create_job backend_create job_id request_json JOB_DB =
     (case request_json of
        None \<Rightarrow> (Abort 400, JOB_DB)
      | Some json \<Rightarrow>
         if json = [] \<or> \<not> py_in ''experiment'' json \<or> \<not> py_in ''docker-img'' json
         then (Abort 400, JOB_DB)
         else
           let cmd = (if py_in ''cmd'' json then py_get json ''cmd'' else PNone);
               env_vars = (if py_in ''env-vars'' json then py_get json ''env-vars'' else PDict []);
               cvmfs_repos = (if truthy (py_get json ''cvmfs_mounts'')
                              then py_get json ''cvmfs_mounts'' else PList [])
           in (case instantiate_job backend_create
                      \<lparr>positional_args = [PStr job_id, py_get json ''docker-img'', cmd, cvmfs_repos,
                                      env_vars, py_get json ''experiment''],
                       keyword_args = [(''shared_file_system'', PBool True)]\<rparr> of
                 Inl e \<Rightarrow> (Unhandled e, JOB_DB)
               | Inr job_obj \<Rightarrow>
                  if truthy job_obj
                  then
                    let job = py_set json ''job-id'' (PStr job_id);
                        job = py_set job ''status'' (PStr ''started'');
                        job = py_set job ''restart_count'' (PInt 0);
                        job = py_set job ''max_restart_count'' (PInt 3);
                        job = py_set job ''obj'' job_obj;
                        job = py_set job ''deleted'' (PBool False)
                    in (Response 201 (PDict [(''job-id'', PStr job_id)]),
                        py_set JOB_DB job_id job)
                  else (Response 500 (PDict [(''job'', PStr ''Could not be allocated'')]), JOB_DB)))"

section \<open>k8s.py: building the job manifest\<close>

text \<open>
  The manifest is the dictionary loaded from \<open>resources/job_template.yml\<close>; \<open>prepare_job\<close>
  writes the names, the namespace and the image, and touches the first container's
  \<open>command\<close>, \<open>env\<close> and \<open>volumeMounts\<close> and the pod's \<open>volumes\<close>. These are the fields of
  the record; what else the template holds is never read or written.
\<close>

record env_entry =
  env_name :: string
  env_value :: pyval

record volume_mount =
  mount_name :: string
  mountPath :: string

text \<open>A volume dictionary: its \<open>name\<close> and its other keys.\<close>

record volume =
  volume_name :: string
  volume_source :: pydict

record manifest =
  metadata_name :: string
  metadata_namespace :: string
  template_metadata_name :: string
  container_name :: string
  container_image :: string
  container_command :: "string list option"
  container_env :: "env_entry list"
  container_volumeMounts :: "volume_mount list"
  volumes :: "volume list"

text \<open>
  The module \<open>volume_templates\<close>, the job template and \<open>shlex.split\<close> are outside the two
  modules modelled here: they are parameters. A secret volume as
  \<open>get_k8s_secret_volumes\<close> lists it has the keys \<open>secret\<close> and \<open>mountPath\<close>;
  \<open>shlex.split\<close> answers \<open>None\<close> where it raises \<open>ValueError\<close> (an open quotation).
\<close>

record secret_volume =
  secret :: pyval
  secret_mountPath :: string

record volume_templates =
  get_k8s_cephfs_volume :: "string \<Rightarrow> volume"
  CEPHFS_MOUNT_PATH :: string
  get_k8s_cvmfs_volume :: "string \<Rightarrow> string \<Rightarrow> volume"
  get_cvmfs_mount_point :: "string \<Rightarrow> string"
  get_k8s_secret_volumes :: "string \<Rightarrow> secret_volume list"

text \<open>\<open>'{}'.format(num)\<close>: the decimal digits of a natural number.\<close>

fun str_nat :: "nat \<Rightarrow> string" where
  "str_nat n =
     (if n < 10 then [''0123456789'' ! n]
      else str_nat (n div 10) @ [''0123456789'' ! (n mod 10)])"

declare str_nat.simps [simp del]

definition append_volume :: "volume \<Rightarrow> string \<Rightarrow> manifest \<Rightarrow> manifest" where
  "append_volume vol mount_path job =
     job\<lparr>container_volumeMounts :=
           container_volumeMounts job @ [\<lparr>mount_name = volume_name vol, mountPath = mount_path\<rparr>],
         volumes := volumes job @ [vol]\<rparr>"

definition add_shared_volume :: "volume_templates \<Rightarrow> manifest \<Rightarrow> string \<Rightarrow> manifest" where
  "add_shared_volume vt job namespace =
     append_volume (get_k8s_cephfs_volume vt namespace) (CEPHFS_MOUNT_PATH vt) job"

text \<open>The three loops of \<open>prepare_job\<close>; \<open>num\<close> is the counter of \<open>enumerate\<close>.\<close>

fun add_env_vars :: "(string \<times> pyval) list \<Rightarrow> manifest \<Rightarrow> manifest" where
  "add_env_vars [] job = job"
| "add_env_vars ((var, val) # items) job =
     add_env_vars items
       (job\<lparr>container_env := container_env job @ [\<lparr>env_name = var, env_value = val\<rparr>]\<rparr>)"

definition cvmfs_volume :: "volume_templates \<Rightarrow> string \<Rightarrow> nat \<Rightarrow> string \<Rightarrow> volume" where
  "cvmfs_volume vt namespace num repo =
     (let vol = get_k8s_cvmfs_volume vt namespace repo
      in vol\<lparr>volume_name := volume_name vol @ ''-'' @ str_nat num\<rparr>)"

fun add_cvmfs_repos :: "volume_templates \<Rightarrow> string \<Rightarrow> nat \<Rightarrow> string list \<Rightarrow> manifest \<Rightarrow> manifest" where
  "add_cvmfs_repos vt namespace num [] job = job"
| "add_cvmfs_repos vt namespace num (repo # repos) job =
     add_cvmfs_repos vt namespace (Suc num) repos
       (append_volume (cvmfs_volume vt namespace num repo) (get_cvmfs_mount_point vt repo) job)"

definition secret_name :: "nat \<Rightarrow> string" where
  "secret_name num = ''secret-'' @ str_nat num"

definition append_secret :: "nat \<Rightarrow> secret_volume \<Rightarrow> manifest \<Rightarrow> manifest" where
  "append_secret num sec job =
     job\<lparr>container_volumeMounts :=
           container_volumeMounts job
           @ [\<lparr>mount_name = secret_name num, mountPath = secret_mountPath sec\<rparr>],
         volumes :=
           volumes job
           @ [\<lparr>volume_name = secret_name num, volume_source = [(''secret'', secret sec)]\<rparr>]\<rparr>"

fun add_secrets :: "nat \<Rightarrow> secret_volume list \<Rightarrow> manifest \<Rightarrow> manifest" where
  "add_secrets num [] job = job"
| "add_secrets num (sec # secs) job = add_secrets (Suc num) secs (append_secret num sec job)"

definition prepare_job ::
  "volume_templates \<Rightarrow> manifest \<Rightarrow> (string \<Rightarrow> string list option) \<Rightarrow>
   string \<Rightarrow> string \<Rightarrow> string option \<Rightarrow> string list \<Rightarrow> (string \<times> pyval) list \<Rightarrow> string \<Rightarrow>
   bool \<Rightarrow> bool \<Rightarrow> exn + manifest" where
  "prepare_job vt job_template shlex_split
               job_id docker_img cmd cvmfs_repos env_vars namespace
               shared_file_system scopesecrets =
     (let job = job_template\<lparr>metadata_name := job_id,
                             metadata_namespace := namespace,
                             template_metadata_name := job_id,
                             container_name := job_id,
                             container_image := docker_img\<rparr>
      in case (case cmd of
                 None \<Rightarrow> Inr job
               | Some c \<Rightarrow>
                   if c = [] then Inr job
                   else (case shlex_split c of
                           None \<Rightarrow> Inl ValueError
                         | Some argv \<Rightarrow> Inr (job\<lparr>container_command := Some argv\<rparr>))) of
           Inl e \<Rightarrow> Inl e
         | Inr job \<Rightarrow>
            let job = (if env_vars \<noteq> [] then add_env_vars env_vars job else job);
                job = (if shared_file_system then add_shared_volume vt job namespace else job);
                job = (if cvmfs_repos \<noteq> [] then add_cvmfs_repos vt namespace 0 cvmfs_repos job
                       else job);
                job = (if scopesecrets
                       then add_secrets 0 (get_k8s_secret_volumes vt namespace) job else job)
            in Inr job)"

section \<open>k8s.py: the two watchers\<close>

text \<open>
  A pod event: the pod, and the text that \<open>pod.logs()\<close> answers should the watcher ask.
\<close>

record pod_event =
  event_pod :: pod
  event_pod_logs :: string

text \<open>
  The state the watchers share: the job table, the calls made to the cluster backend so
  far, and where each watcher stands. The watchers are two threads on one table, with no
  lock. The job watcher handles one event at a time and, in the branch for a \<open>DELETED\<close>
  event, sleeps in two loops; the pod watcher and the backend move on while it sleeps, so
  each pass of a loop is a step of its own. The pod watcher computes its list
  \<open>unended_jobs\<close> when an event arrives, reads the list only later, and waits for the
  backend in \<open>pod.logs()\<close>; the job watcher moves on in between, so the guard, the
  statements up to the call of \<open>pod.logs()\<close>, and the statements after it are three steps.
  The guard of the job watcher reads the \<open>deleted\<close> flags only, which no one else writes,
  so a job event up to its first wait is one step.
\<close>

datatype backend_call = DeleteJob string | DeletePod string | PodLogs string | JobExists string

datatype jobs_pc = Idle | WaitPod string | WaitGone string

datatype pods_pc = PodsIdle | PodsGuarded pod_event "string list" | PodsLogs pod_event string

record state =
  job_db :: job_db
  calls :: "backend_call list"
  jobs_pc :: jobs_pc
  pods_pc :: pods_pc

text \<open>
  The end of a step: it completed, or an exception left the loop of the watcher (with the
  state as the statements before the \<open>raise\<close> left it), or the step cannot be taken in this
  state (a job event while the job watcher is inside a wait loop, a pod event while the
  pod watcher is handling one).
\<close>

datatype outcome = Normal state | Raised exn state | NotEnabled

text \<open>\<open>job_db[j][k]\<close> and \<open>job_db[j][k] = v\<close>.\<close>

definition get_field :: "job_db \<Rightarrow> string \<Rightarrow> string \<Rightarrow> exn + pyval" where
  "get_field db j k = (case py_item db j of Inl e \<Rightarrow> Inl e | Inr job \<Rightarrow> py_item job k)"

definition set_field :: "job_db \<Rightarrow> string \<Rightarrow> string \<Rightarrow> pyval \<Rightarrow> exn + job_db" where
  "set_field db j k v =
     (case py_item db j of Inl e \<Rightarrow> Inl e | Inr job \<Rightarrow> Inr (py_set db j (py_set job k v)))"

text \<open>
  The list comprehensions \<open>[j for j in job_db.keys() if cond(job_db[j])]\<close>; the condition
  reads keys of the job and may raise.
\<close>

fun select_jobs :: "(pydict \<Rightarrow> exn + bool) \<Rightarrow> job_db \<Rightarrow> string list \<Rightarrow> exn + string list" where
  "select_jobs cond db [] = Inr []"
| "select_jobs cond db (j # js) =
     (case py_item db j of Inl e \<Rightarrow> Inl e | Inr job \<Rightarrow>
      (case cond job of Inl e \<Rightarrow> Inl e | Inr b \<Rightarrow>
       (case select_jobs cond db js of Inl e \<Rightarrow> Inl e | Inr rest \<Rightarrow>
        Inr (if b then j # rest else rest))))"

definition not_deleted :: "pydict \<Rightarrow> exn + bool" where
  "not_deleted job =
     (case py_item job ''deleted'' of Inl e \<Rightarrow> Inl e | Inr d \<Rightarrow> Inr (\<not> truthy d))"

definition not_deleted_nor_failed :: "pydict \<Rightarrow> exn + bool" where
  "not_deleted_nor_failed job =
     (case py_item job ''deleted'' of
        Inl e \<Rightarrow> Inl e
      | Inr d \<Rightarrow>
          if truthy d then Inr False
          else (case py_item job ''status'' of
                  Inl e \<Rightarrow> Inl e
                | Inr st \<Rightarrow> Inr (st \<noteq> PStr ''failed'')))"

subsection \<open>watch_jobs\<close>

text \<open>
  A job event: \<open>event.type\<close>, \<open>job.name\<close>, \<open>job.obj['status']\<close> with its keys \<open>succeeded\<close>
  and \<open>failed\<close>, and whether the expression \<open>job['metadata']['name']\<close>, a subscript on
  the object of the cluster library (which is outside the repository), raises:
  \<open>None\<close> when the object can be subscripted, and then the value is \<open>job.name\<close>, which the
  library reads from the same place.
\<close>

record job_status =
  succeeded :: "pyval option"
  failed :: "pyval option"

record job_event =
  event_type :: string
  event_job_name :: string
  event_job_status :: "job_status option"
  event_job_subscript_error :: "exn option"

definition opt_get :: "pyval option \<Rightarrow> pyval" where
  "opt_get x = (case x of None \<Rightarrow> PNone | Some v \<Rightarrow> v)"

definition job_succeeded :: "job_event \<Rightarrow> state \<Rightarrow> outcome" where
  "job_succeeded event s =
     (case set_field (job_db s) (event_job_name event) ''status'' (PStr ''succeeded'') of
        Inl e \<Rightarrow> Raised e s
      | Inr db \<Rightarrow>
          Normal (s\<lparr>job_db := db, calls := calls s @ [DeleteJob (event_job_name event)]\<rparr>))"

definition job_failed :: "job_event \<Rightarrow> state \<Rightarrow> outcome" where
  "job_failed event s =
     (case event_job_subscript_error event of
        Some e \<Rightarrow> Raised e s
      | None \<Rightarrow>
         (case set_field (job_db s) (event_job_name event) ''status'' (PStr ''failed'') of
            Inl e \<Rightarrow> Raised e s
          | Inr db \<Rightarrow>
              Normal (s\<lparr>job_db := db, calls := calls s @ [DeleteJob (event_job_name event)]\<rparr>)))"

text \<open>The body of the \<open>for\<close> loop up to the first wait loop.\<close>

definition watch_jobs_event :: "job_event \<Rightarrow> state \<Rightarrow> outcome" where
  "watch_jobs_event event s =
     (case select_jobs not_deleted (job_db s) (map fst (job_db s)) of
        Inl e \<Rightarrow> Raised e s
      | Inr unended_jobs \<Rightarrow>
          if event_job_name event \<in> set unended_jobs \<and> event_type event = ''DELETED''
          then Normal (s\<lparr>jobs_pc := WaitPod (event_job_name event)\<rparr>)
          else if event_job_name event \<in> set unended_jobs
          then (case event_job_status event of
                  None \<Rightarrow> Raised KeyError s
                | Some st \<Rightarrow>
                    if truthy (opt_get (succeeded st)) then job_succeeded event s
                    else if truthy (opt_get (failed st)) then job_failed event s
                    else Normal s)
          else Normal s)"

text \<open>One pass of \<open>while not job_db[job.name].get('pod')\<close>.\<close>

definition poll_pod :: "string \<Rightarrow> state \<Rightarrow> outcome" where
  "poll_pod name s =
     (case py_item (job_db s) name of
        Inl e \<Rightarrow> Raised e s
      | Inr job \<Rightarrow>
          if truthy (py_get job ''pod'') then Normal (s\<lparr>jobs_pc := WaitGone name\<rparr>)
          else Normal s)"

text \<open>
  One pass of \<open>while job.exists()\<close>, with the backend's answer, and after the loop the
  deletion of the pod and the tombstone.
\<close>

definition poll_exists :: "string \<Rightarrow> bool \<Rightarrow> state \<Rightarrow> outcome" where
  "poll_exists name exists s =
     (let s1 = s\<lparr>calls := calls s @ [JobExists name]\<rparr>
      in if exists then Normal s1
         else (case get_field (job_db s1) name ''pod'' of
                 Inl e \<Rightarrow> Raised e s1
               | Inr (PPod p) \<Rightarrow>
                  (let s2 = s1\<lparr>calls := calls s1 @ [DeletePod (pod_name p)]\<rparr>
                   in case set_field (job_db s2) name ''deleted'' (PBool True) of
                        Inl e \<Rightarrow> Raised e s2
                      | Inr db \<Rightarrow> Normal (s2\<lparr>job_db := db, jobs_pc := Idle\<rparr>))
               | Inr _ \<Rightarrow> Raised AttributeError s1))"

subsection \<open>watch_pods\<close>

text \<open>\<open>'-'.join(pod.name.split('-')[:-1])\<close>.\<close>

fun split_dash :: "string \<Rightarrow> string list" where
  "split_dash [] = [[]]"
| "split_dash (c # cs) =
     (if c = CHR ''-'' then [] # split_dash cs
      else (case split_dash cs of
              [] \<Rightarrow> [[c]]
            | w # ws \<Rightarrow> (c # w) # ws))"

fun join_dash :: "string list \<Rightarrow> string" where
  "join_dash [] = []"
| "join_dash [w] = w"
| "join_dash (w # ws) = w @ ''-'' @ join_dash ws"

definition job_name_of_pod :: "string \<Rightarrow> string" where
  "job_name_of_pod name = join_dash (butlast (split_dash name))"

text \<open>
  \<open>restarts >= job_db[job_name]['max_restart_count']\<close> and \<open>exit_code > 0\<close>, as
  Python 3 orders values: integers (and booleans, which are integers) are comparable,
  anything else against an integer raises \<open>TypeError\<close>; so does \<open>None > 0\<close>.
\<close>

definition py_ge :: "int \<Rightarrow> pyval \<Rightarrow> exn + bool" where
  "py_ge i v =
     (case v of
        PInt m \<Rightarrow> Inr (i \<ge> m)
      | PBool b \<Rightarrow> Inr (i \<ge> (if b then 1 else 0))
      | _ \<Rightarrow> Inl TypeError)"

definition py_gt0 :: "int option \<Rightarrow> exn + bool" where
  "py_gt0 exit_code = (case exit_code of None \<Rightarrow> Inl TypeError | Some c \<Rightarrow> Inr (c > 0))"

text \<open>
  The statements under \<open>if restarts >= ... and exit_code > 0\<close>: the call of
  \<open>pod.logs()\<close>, and what follows when the backend has answered. The result is the
  exception raised, if any, and the state as the statements that ran left it.
\<close>

definition request_logs :: "pod_event \<Rightarrow> state \<Rightarrow> state" where
  "request_logs event s = s\<lparr>calls := calls s @ [PodLogs (pod_name (event_pod event))]\<rparr>"

definition store_logs :: "pod_event \<Rightarrow> string \<Rightarrow> state \<Rightarrow> exn option \<times> state" where
  "store_logs event job_name s1 =
     (case set_field (job_db s1) job_name ''log'' (PStr (event_pod_logs event)) of
        Inl e \<Rightarrow> (Some e, s1)
      | Inr db2 \<Rightarrow>
         (let s2 = s1\<lparr>job_db := db2\<rparr>
          in case set_field (job_db s2) job_name ''status'' (PStr ''failed'') of
               Inl e \<Rightarrow> (Some e, s2)
             | Inr db3 \<Rightarrow>
                (let s3 = s2\<lparr>job_db := db3\<rparr>
                 in case get_field (job_db s3) job_name ''obj'' of
                      Inl e \<Rightarrow> (Some e, s3)
                    | Inr (PJob h) \<Rightarrow> (None, s3\<lparr>calls := calls s3 @ [DeleteJob h]\<rparr>)
                    | Inr _ \<Rightarrow> (Some AttributeError, s3))))"

definition escalate :: "pod_event \<Rightarrow> string \<Rightarrow> state \<Rightarrow> exn option \<times> state" where
  "escalate event job_name s = store_logs event job_name (request_logs event s)"

text \<open>
  The body of the \<open>try\<close> up to the \<open>if\<close>: it ends there, with an exception or without,
  or the condition of the \<open>if\<close> holds.
\<close>

datatype noted = Noted "exn option" state | Exceeded state

definition note_restarts :: "pod_event \<Rightarrow> string \<Rightarrow> state \<Rightarrow> noted" where
  "note_restarts event job_name s =
     (case pod_obj_status (event_pod event) of
        None \<Rightarrow> Noted (Some KeyError) s
      | Some status \<Rightarrow>
       (case containerStatuses status of
          None \<Rightarrow> Noted (Some KeyError) s
        | Some [] \<Rightarrow> Noted (Some IndexError) s
        | Some (cs # _) \<Rightarrow>
         (case restartCount cs of
            None \<Rightarrow> Noted (Some KeyError) s
          | Some restarts \<Rightarrow>
           (case state cs of
              None \<Rightarrow> Noted (Some KeyError) s
            | Some st \<Rightarrow>
              (let exit_code = (case terminated st of None \<Rightarrow> None | Some t \<Rightarrow> exitCode t)
               in case set_field (job_db s) job_name ''restart_count'' (PInt restarts) of
                    Inl e \<Rightarrow> Noted (Some e) s
                  | Inr db1 \<Rightarrow>
                     (let s1 = s\<lparr>job_db := db1\<rparr>
                      in case get_field (job_db s1) job_name ''max_restart_count'' of
                           Inl e \<Rightarrow> Noted (Some e) s1
                         | Inr m \<Rightarrow>
                            (case py_ge restarts m of
                               Inl e \<Rightarrow> Noted (Some e) s1
                             | Inr False \<Rightarrow> Noted None s1
                             | Inr True \<Rightarrow>
                                (case py_gt0 exit_code of
                                   Inl e \<Rightarrow> Noted (Some e) s1
                                 | Inr False \<Rightarrow> Noted None s1
                                 | Inr True \<Rightarrow> Exceeded s1))))))))"

text \<open>The body of the \<open>try\<close>.\<close>

definition take_note :: "pod_event \<Rightarrow> string \<Rightarrow> state \<Rightarrow> exn option \<times> state" where
  "take_note event job_name s =
     (case note_restarts event job_name s of
        Noted r s' \<Rightarrow> (r, s')
      | Exceeded s1 \<Rightarrow> escalate event job_name s1)"

text \<open>\<open>except KeyError\<close>: a \<open>KeyError\<close> is logged and the loop goes on; any other exception leaves it.\<close>

definition except_KeyError :: "exn option \<times> state \<Rightarrow> outcome" where
  "except_KeyError r =
     (case r of
        (None, s) \<Rightarrow> Normal s
      | (Some e, s) \<Rightarrow> if e = KeyError then Normal s else Raised e s)"

text \<open>\<open>job_db[job_name]['pod'] = pod\<close> when the job is known and \<open>.get('pod')\<close> is false.\<close>

definition store_pod :: "pod \<Rightarrow> string \<Rightarrow> state \<Rightarrow> state" where
  "store_pod p job_name s =
     (case map_of (job_db s) job_name of
        None \<Rightarrow> s
      | Some job \<Rightarrow>
          if \<not> truthy (py_get job ''pod'')
          then s\<lparr>job_db := py_set (job_db s) job_name (py_set job ''pod'' (PPod p))\<rparr>
          else s)"

text \<open>The body of the \<open>for\<close> loop of \<open>watch_pods\<close>.\<close>

definition watch_pods_event :: "pod_event \<Rightarrow> state \<Rightarrow> outcome" where
  "watch_pods_event event s =
     (case select_jobs not_deleted_nor_failed (job_db s) (map fst (job_db s)) of
        Inl e \<Rightarrow> Raised e s
      | Inr unended_jobs \<Rightarrow>
         (let job_name = job_name_of_pod (pod_name (event_pod event));
              s1 = store_pod (event_pod event) job_name s
          in if job_name \<in> set unended_jobs
             then except_KeyError (take_note event job_name s1)
             else Normal s1))"

text \<open>
  The same body as the pod watcher takes it while the job watcher runs: the list
  comprehension; then the statements up to the end of the body or to the call of
  \<open>pod.logs()\<close>, with the list computed before; then the statements after the call.
\<close>

definition pods_guard :: "pod_event \<Rightarrow> state \<Rightarrow> outcome" where
  "pods_guard event s =
     (case select_jobs not_deleted_nor_failed (job_db s) (map fst (job_db s)) of
        Inl e \<Rightarrow> Raised e s
      | Inr unended_jobs \<Rightarrow> Normal (s\<lparr>pods_pc := PodsGuarded event unended_jobs\<rparr>))"

definition pods_proceed :: "pod_event \<Rightarrow> string list \<Rightarrow> state \<Rightarrow> outcome" where
  "pods_proceed event unended_jobs s =
     (let job_name = job_name_of_pod (pod_name (event_pod event));
          s1 = store_pod (event_pod event) job_name (s\<lparr>pods_pc := PodsIdle\<rparr>)
      in if job_name \<in> set unended_jobs
         then (case note_restarts event job_name s1 of
                 Noted r s2 \<Rightarrow> except_KeyError (r, s2)
               | Exceeded s2 \<Rightarrow>
                   Normal ((request_logs event s2)\<lparr>pods_pc := PodsLogs event job_name\<rparr>))
         else Normal s1)"

definition pods_logs_return :: "pod_event \<Rightarrow> string \<Rightarrow> state \<Rightarrow> outcome" where
  "pods_logs_return event job_name s =
     except_KeyError (store_logs event job_name (s\<lparr>pods_pc := PodsIdle\<rparr>))"

subsection \<open>The two watchers together\<close>

text \<open>
  A step of the system: the job watcher takes the next job event (when it is not inside a
  wait loop) or makes one pass of one of its wait loops, or the pod watcher takes the next
  pod event and computes its list, goes on with the event it has taken, or gets the answer
  of \<open>pod.logs()\<close>. A run is a sequence of steps, the two watchers interleaved in any
  order; it ends at the first exception that leaves a watcher's loop.
\<close>

datatype action =
    JobEvent job_event | PollPod | PollExists bool
  | PodEvent pod_event | PodProceed | PodLogsReturn

fun step :: "action \<Rightarrow> state \<Rightarrow> outcome" where
  "step (JobEvent event) s =
     (case jobs_pc s of Idle \<Rightarrow> watch_jobs_event event s | _ \<Rightarrow> NotEnabled)"
| "step PollPod s =
     (case jobs_pc s of WaitPod name \<Rightarrow> poll_pod name s | _ \<Rightarrow> NotEnabled)"
| "step (PollExists exists) s =
     (case jobs_pc s of WaitGone name \<Rightarrow> poll_exists name exists s | _ \<Rightarrow> NotEnabled)"
| "step (PodEvent event) s =
     (case pods_pc s of PodsIdle \<Rightarrow> pods_guard event s | _ \<Rightarrow> NotEnabled)"
| "step PodProceed s =
     (case pods_pc s of
        PodsGuarded event unended_jobs \<Rightarrow> pods_proceed event unended_jobs s
      | _ \<Rightarrow> NotEnabled)"
| "step PodLogsReturn s =
     (case pods_pc s of
        PodsLogs event job_name \<Rightarrow> pods_logs_return event job_name s
      | _ \<Rightarrow> NotEnabled)"

fun run :: "action list \<Rightarrow> state \<Rightarrow> outcome" where
  "run [] s = Normal s"
| "run (a # as) s =
     (case step a s of
        Normal s' \<Rightarrow> run as s'
      | Raised e s' \<Rightarrow> Raised e s'
      | NotEnabled \<Rightarrow> NotEnabled)"

text \<open>The state a run ends in, if the run is possible.\<close>

fun final :: "outcome \<Rightarrow> state option" where
  "final (Normal s) = Some s"
| "final (Raised e s) = Some s"
| "final NotEnabled = None"

text \<open>The pod watcher alone on a sequence of pod events.\<close>

fun watch_pods :: "pod_event list \<Rightarrow> state \<Rightarrow> outcome" where
  "watch_pods [] s = Normal s"
| "watch_pods (event # events) s =
     (case watch_pods_event event s of
        Normal s' \<Rightarrow> watch_pods events s'
      | Raised e s' \<Rightarrow> Raised e s'
      | NotEnabled \<Rightarrow> NotEnabled)"

section \<open>Notions used in the statements\<close>

text \<open>The value a job of the table holds under a key, if the job and the key exist.\<close>

definition db_field :: "job_db \<Rightarrow> string \<Rightarrow> string \<Rightarrow> pyval option" where
  "db_field db j k = (case map_of db j of None \<Rightarrow> None | Some job \<Rightarrow> map_of job k)"

definition field_of :: "state \<Rightarrow> string \<Rightarrow> string \<Rightarrow> pyval option" where
  "field_of s j k = db_field (job_db s) j k"

text \<open>A job is tombstoned when its \<open>deleted\<close> flag is true.\<close>

definition tombstoned :: "state \<Rightarrow> string \<Rightarrow> bool" where
  "tombstoned s j = (case field_of s j ''deleted'' of None \<Rightarrow> False | Some d \<Rightarrow> truthy d)"

text \<open>
  The pod watcher is handling an event of a pod of the job and has found the job in its
  list \<open>unended_jobs\<close>: the job has passed the guard of an event that is not yet done.
\<close>

definition guard_passed :: "state \<Rightarrow> string \<Rightarrow> bool" where
  "guard_passed s j =
     (case pods_pc s of
        PodsIdle \<Rightarrow> False
      | PodsGuarded event unended_jobs \<Rightarrow>
          j \<in> set unended_jobs \<and> job_name_of_pod (pod_name (event_pod event)) = j
      | PodsLogs event job_name \<Rightarrow> job_name = j)"

text \<open>
  Every job of the table has the keys \<open>deleted\<close> and \<open>status\<close>, as every job that
  \<open>create_job\<close> stores has.
\<close>

definition wf_db :: "job_db \<Rightarrow> bool" where
  "wf_db db = list_all (\<lambda>(j, job). py_in ''deleted'' job \<and> py_in ''status'' job) db"

text \<open>
  What a pod reports when every key the pod watcher reads is there: the restart count
  of the first container and its exit code, if it is in a terminated state.
\<close>

definition reported :: "pod \<Rightarrow> (int \<times> int option) option" where
  "reported p =
     (case pod_obj_status p of
        None \<Rightarrow> None
      | Some status \<Rightarrow>
         (case containerStatuses status of
            None \<Rightarrow> None
          | Some [] \<Rightarrow> None
          | Some (cs # _) \<Rightarrow>
             (case (restartCount cs, state cs) of
                (Some restarts, Some st) \<Rightarrow>
                  Some (restarts, (case terminated st of None \<Rightarrow> None | Some t \<Rightarrow> exitCode t))
              | _ \<Rightarrow> None)))"

text \<open>
  A key that the pod watcher reads is missing: \<open>status\<close>, \<open>containerStatuses\<close>, or
  \<open>restartCount\<close> or \<open>state\<close> of the first container.
\<close>

definition status_key_missing :: "pod \<Rightarrow> bool" where
  "status_key_missing p =
     (case pod_obj_status p of
        None \<Rightarrow> True
      | Some status \<Rightarrow>
         (case containerStatuses status of
            None \<Rightarrow> True
          | Some [] \<Rightarrow> False
          | Some (cs # _) \<Rightarrow> restartCount cs = None \<or> state cs = None))"

text \<open>The pod deletions among the backend calls.\<close>

fun is_DeletePod :: "backend_call \<Rightarrow> bool" where
  "is_DeletePod (DeletePod p) = True"
| "is_DeletePod _ = False"

section \<open>Concrete inputs\<close>

text \<open>
  A create request with the two required fields, and job tables as \<open>create_job\<close> fills
  them: the body of the request with the six keys that \<open>create_job\<close> writes. In
  \<open>table_null_pod\<close> the body of the request had the extra field \<open>"pod": null\<close>.
\<close>

definition request_atlas :: pydict where
  "request_atlas = [(''experiment'', PStr ''atlas''), (''docker-img'', PStr ''busybox'')]"

definition table_null_pod :: job_db where
  "table_null_pod =
     [(''j1'', [(''experiment'', PStr ''atlas''), (''docker-img'', PStr ''busybox''),
               (''pod'', PNone), (''job-id'', PStr ''j1''), (''status'', PStr ''started''),
               (''restart_count'', PInt 0), (''max_restart_count'', PInt 3),
               (''obj'', PJob ''j1''), (''deleted'', PBool False)])]"

text \<open>Stand-ins for \<open>volume_templates\<close>, the job template and \<open>shlex.split\<close>.\<close>

definition vt_example :: volume_templates where
  "vt_example =
     \<lparr>get_k8s_cephfs_volume =
        (\<lambda>namespace. \<lparr>volume_name = ''cephfs-'' @ namespace,
                       volume_source = [(''cephfs'', PDict [(''readOnly'', PBool False)])]\<rparr>),
      CEPHFS_MOUNT_PATH = ''/data'',
      get_k8s_cvmfs_volume =
        (\<lambda>namespace repo. \<lparr>volume_name = ''cvmfs-'' @ repo,
                            volume_source = [(''readOnly'', PBool True)]\<rparr>),
      get_cvmfs_mount_point = (\<lambda>repo. ''/cvmfs/'' @ repo @ ''.cern.ch''),
      get_k8s_secret_volumes =
        (\<lambda>namespace. [\<lparr>secret = PDict [(''secretName'', PStr ''tokens'')],
                        secret_mountPath = ''/etc/tokens''\<rparr>])\<rparr>"

definition template_example :: manifest where
  "template_example =
     \<lparr>metadata_name = ''name'', metadata_namespace = ''default'',
      template_metadata_name = ''name'', container_name = ''name'',
      container_image = ''image'', container_command = None,
      container_env = [], container_volumeMounts = [], volumes = []\<rparr>"

definition split_example :: "string \<Rightarrow> string list option" where
  "split_example c = (if c = ''sleep 1000'' then Some [''sleep'', ''1000''] else None)"

text \<open>
  A job as \<open>create_job\<close> stores it, with the keys the watchers add at the end, and the
  states of a run: the job \<open>a1-b2\<close> started, then with the pod \<open>a1-b2-x7\<close> attached, with
  one restart recorded, escalated to failed, succeeded, and tombstoned.
\<close>

definition job_record :: "string \<Rightarrow> int \<Rightarrow> bool \<Rightarrow> pydict \<Rightarrow> pydict" where
  "job_record st restarts del added =
     [(''experiment'', PStr ''atlas''), (''docker-img'', PStr ''busybox''),
      (''job-id'', PStr ''a1-b2''), (''status'', PStr st), (''restart_count'', PInt restarts),
      (''max_restart_count'', PInt 3), (''obj'', PJob ''a1-b2''), (''deleted'', PBool del)]
     @ added"

definition pod_pending :: pod where
  "pod_pending = \<lparr>pod_name = ''a1-b2-x7'', pod_obj_status = Some \<lparr>containerStatuses = None\<rparr>\<rparr>"

definition pod_running :: pod where
  "pod_running =
     \<lparr>pod_name = ''a1-b2-q9'',
      pod_obj_status = Some \<lparr>containerStatuses = Some
        [\<lparr>restartCount = Some 1, state = Some \<lparr>terminated = None\<rparr>\<rparr>]\<rparr>\<rparr>"

definition pod_crashed :: pod where
  "pod_crashed =
     \<lparr>pod_name = ''a1-b2-x7'',
      pod_obj_status = Some \<lparr>containerStatuses = Some
        [\<lparr>restartCount = Some 3,
          state = Some \<lparr>terminated = Some \<lparr>exitCode = Some 1\<rparr>\<rparr>\<rparr>]\<rparr>\<rparr>"

definition pod_no_statuses :: pod where
  "pod_no_statuses =
     \<lparr>pod_name = ''a1-b2-x7'', pod_obj_status = Some \<lparr>containerStatuses = Some []\<rparr>\<rparr>"

definition pod_backoff :: pod where
  "pod_backoff =
     \<lparr>pod_name = ''a1-b2-x7'',
      pod_obj_status = Some \<lparr>containerStatuses = Some
        [\<lparr>restartCount = Some 3, state = Some \<lparr>terminated = None\<rparr>\<rparr>]\<rparr>\<rparr>"

definition ev_no_statuses :: pod_event where
  "ev_no_statuses = \<lparr>event_pod = pod_no_statuses, event_pod_logs = []\<rparr>"

definition ev_backoff :: pod_event where
  "ev_backoff = \<lparr>event_pod = pod_backoff, event_pod_logs = []\<rparr>"

definition ev_pending :: pod_event where
  "ev_pending = \<lparr>event_pod = pod_pending, event_pod_logs = []\<rparr>"

definition ev_running :: pod_event where
  "ev_running = \<lparr>event_pod = pod_running, event_pod_logs = []\<rparr>"

definition ev_crashed :: pod_event where
  "ev_crashed = \<lparr>event_pod = pod_crashed, event_pod_logs = ''boom''\<rparr>"

definition ev_succeeded :: job_event where
  "ev_succeeded =
     \<lparr>event_type = ''MODIFIED'', event_job_name = ''a1-b2'',
      event_job_status = Some \<lparr>succeeded = Some (PInt 1), failed = None\<rparr>,
      event_job_subscript_error = Some TypeError\<rparr>"

definition ev_deleted :: job_event where
  "ev_deleted =
     \<lparr>event_type = ''DELETED'', event_job_name = ''a1-b2'',
      event_job_status = Some \<lparr>succeeded = None, failed = None\<rparr>,
      event_job_subscript_error = Some TypeError\<rparr>"

definition st_started :: state where
  "st_started =
     \<lparr>job_db = [(''a1-b2'', job_record ''started'' 0 False [])], calls = [], jobs_pc = Idle, pods_pc = PodsIdle\<rparr>"

definition st_pending :: state where
  "st_pending =
     \<lparr>job_db = [(''a1-b2'', job_record ''started'' 0 False [(''pod'', PPod pod_pending)])],
      calls = [], jobs_pc = Idle, pods_pc = PodsIdle\<rparr>"

definition st_restarted :: state where
  "st_restarted =
     \<lparr>job_db = [(''a1-b2'', job_record ''started'' 1 False [(''pod'', PPod pod_pending)])],
      calls = [], jobs_pc = Idle, pods_pc = PodsIdle\<rparr>"

definition st_backoff :: state where
  "st_backoff =
     \<lparr>job_db = [(''a1-b2'', job_record ''started'' 3 False [(''pod'', PPod pod_pending)])],
      calls = [], jobs_pc = Idle, pods_pc = PodsIdle\<rparr>"

definition st_escalated :: state where
  "st_escalated =
     \<lparr>job_db = [(''a1-b2'', job_record ''failed'' 3 False
                   [(''pod'', PPod pod_pending), (''log'', PStr ''boom'')])],
      calls = [PodLogs ''a1-b2-x7'', DeleteJob ''a1-b2''], jobs_pc = Idle, pods_pc = PodsIdle\<rparr>"

definition st_escalated_succeeded :: state where
  "st_escalated_succeeded =
     \<lparr>job_db = [(''a1-b2'', job_record ''succeeded'' 3 False
                   [(''pod'', PPod pod_pending), (''log'', PStr ''boom'')])],
      calls = [PodLogs ''a1-b2-x7'', DeleteJob ''a1-b2'', DeleteJob ''a1-b2''],
      jobs_pc = Idle, pods_pc = PodsIdle\<rparr>"

definition st_succeeded :: state where
  "st_succeeded =
     \<lparr>job_db = [(''a1-b2'', job_record ''succeeded'' 0 False [])],
      calls = [DeleteJob ''a1-b2''], jobs_pc = Idle, pods_pc = PodsIdle\<rparr>"

definition st_succeeded_again :: state where
  "st_succeeded_again =
     \<lparr>job_db = [(''a1-b2'', job_record ''succeeded'' 0 False [])],
      calls = [DeleteJob ''a1-b2'', DeleteJob ''a1-b2''], jobs_pc = Idle, pods_pc = PodsIdle\<rparr>"

definition st_succeeded_failed :: state where
  "st_succeeded_failed =
     \<lparr>job_db = [(''a1-b2'', job_record ''failed'' 3 False
                   [(''pod'', PPod pod_crashed), (''log'', PStr ''boom'')])],
      calls = [DeleteJob ''a1-b2'', PodLogs ''a1-b2-x7'', DeleteJob ''a1-b2''],
      jobs_pc = Idle, pods_pc = PodsIdle\<rparr>"

definition st_waiting_gone :: state where
  "st_waiting_gone =
     \<lparr>job_db = [(''a1-b2'', job_record ''started'' 0 False [(''pod'', PPod pod_pending)])],
      calls = [JobExists ''a1-b2''], jobs_pc = WaitGone ''a1-b2'', pods_pc = PodsIdle\<rparr>"

definition st_tombstoned_in_logs :: state where
  "st_tombstoned_in_logs =
     \<lparr>job_db = [(''a1-b2'', job_record ''started'' 3 True [(''pod'', PPod pod_pending)])],
      calls = [JobExists ''a1-b2'', PodLogs ''a1-b2-x7'', JobExists ''a1-b2'',
               DeletePod ''a1-b2-x7''],
      jobs_pc = Idle, pods_pc = PodsLogs ev_crashed ''a1-b2''\<rparr>"

definition st_tombstoned_failed :: state where
  "st_tombstoned_failed =
     \<lparr>job_db = [(''a1-b2'', job_record ''failed'' 3 True
                   [(''pod'', PPod pod_pending), (''log'', PStr ''boom'')])],
      calls = [JobExists ''a1-b2'', PodLogs ''a1-b2-x7'', JobExists ''a1-b2'',
               DeletePod ''a1-b2-x7'', DeleteJob ''a1-b2''],
      jobs_pc = Idle, pods_pc = PodsIdle\<rparr>"

definition st_tombstoned :: state where
  "st_tombstoned =
     \<lparr>job_db = [(''a1-b2'', job_record ''started'' 0 True [(''pod'', PPod pod_pending)])],
      calls = [JobExists ''a1-b2'', JobExists ''a1-b2'', DeletePod ''a1-b2-x7''],
      jobs_pc = Idle, pods_pc = PodsIdle\<rparr>"


section \<open>Dictionaries\<close>

lemma map_of_py_set: "map_of (py_set d k v) = (map_of d)(k \<mapsto> v)"
  by (simp add: py_set_def AList.update_conv')

lemma py_del_Inr: "py_del d k = Inr d' \<Longrightarrow> map_of d' = (map_of d)(k := None)"
  by (auto simp: py_del_def AList.delete_conv' split: if_splits)

section \<open>The public views\<close>

text \<open>
  What a view of a job holds, when \<open>filter_jobs\<close> returns one: never \<open>obj\<close> or \<open>deleted\<close>,
  every key other than \<open>obj\<close>, \<open>deleted\<close> and \<open>pod\<close> with the stored value, and \<open>pod\<close> only
  if the stored value is false.
\<close>

lemma filter_job_view:
  assumes "filter_job job = Inr v"
  shows "map_of v ''obj'' = None"
    and "map_of v ''deleted'' = None"
    and "k \<noteq> ''obj'' \<Longrightarrow> k \<noteq> ''deleted'' \<Longrightarrow> k \<noteq> ''pod'' \<Longrightarrow> map_of v k = map_of job k"
    and "map_of v ''pod'' = (if truthy (py_get job ''pod'') then None else map_of job ''pod'')"
  using assms
  by (auto simp: filter_job_def py_get_def dest!: py_del_Inr
      split: sum.splits if_splits option.splits)



lemma attached_pod_never_in_view:
  "filter_job job = Inr v \<Longrightarrow> map_of v ''pod'' \<noteq> Some (PPod p)"
  by (auto simp: filter_job_view(4) py_get_def split: option.splits)

text \<open>
  C9. The views of the list and the get operation never contain \<open>obj\<close> or \<open>deleted\<close>
  (\<open>filter_job_view\<close>), but the key \<open>pod\<close> is deleted only when its value is true: for the
  job of \<open>table_null_pod\<close>, whose \<open>pod\<close> is \<open>None\<close>, both views contain the key \<open>pod\<close>.
\<close>

theorem views_keep_false_pod:
  "get_job table_null_pod ''j1'' =
     Response 200 (PDict [(''job'',
       PDict [(''experiment'', PStr ''atlas''), (''docker-img'', PStr ''busybox''),
              (''pod'', PNone), (''job-id'', PStr ''j1''), (''status'', PStr ''started''),
              (''restart_count'', PInt 0), (''max_restart_count'', PInt 3)])])
   \<and> filter_jobs table_null_pod =
     Inr [(''j1'', [(''experiment'', PStr ''atlas''), (''docker-img'', PStr ''busybox''),
                   (''pod'', PNone), (''job-id'', PStr ''j1''), (''status'', PStr ''started''),
                   (''restart_count'', PInt 0), (''max_restart_count'', PInt 3)])]"
  by (simp add: table_null_pod_def get_job_def filter_job_def py_del_def py_in_def py_get_def)






section \<open>Creating a job\<close>

lemma create_job_missing_field:
  "request_json = None \<or> \<not> py_in ''experiment'' (the request_json)
     \<or> \<not> py_in ''docker-img'' (the request_json) \<Longrightarrow>
   create_job backend_create job_id request_json JOB_DB = (Abort 400, JOB_DB)"
  by (auto simp: create_job_def split: option.splits)

text \<open>
  The call in \<open>create_job\<close> passes six positional arguments and a keyword to
  \<open>instantiate_job\<close>, which has one parameter: whatever the backend would answer, no
  request is answered 201 and the table is never written.
\<close>

lemma create_job_never_inserts:
  "snd (create_job backend_create job_id request_json JOB_DB) = JOB_DB
   \<and> status_code (fst (create_job backend_create job_id request_json JOB_DB)) \<in> {400, 500}"
  by (auto simp: create_job_def instantiate_job_def bind_job_manifest_def Let_def
      split: option.splits)

text \<open>
  C8. A request without \<open>experiment\<close> or \<open>docker-img\<close> is answered 400 and leaves the table
  as it is (\<open>create_job_missing_field\<close>). A request with both, on a backend that accepts
  every workload, is not answered 201 with a new record in the table: the call of
  \<open>instantiate_job\<close> raises \<open>TypeError\<close>, the answer is 500 and the table stays empty.
\<close>

theorem create_job_valid_request_fails:
  "create_job (\<lambda>job_manifest. Some ''job-1'') ''id-1'' (Some request_atlas) [] =
     (Unhandled TypeError, [])
   \<and> status_code (Unhandled TypeError) = 500"
  by (simp add: create_job_def request_atlas_def py_in_def py_get_def instantiate_job_def
      bind_job_manifest_def)

theorem create_job_valid_request_fails_witness:
  "snd (create_job (\<lambda>job_manifest. Some ''job-1'') ''id-1'' (Some request_atlas) []) = []
   \<and> fst (create_job (\<lambda>job_manifest. Some ''job-1'') ''id-1'' (Some request_atlas) [])
       \<noteq> Response 201 (PDict [(''job-id'', PStr ''id-1'')])"
  using create_job_valid_request_fails by simp

section \<open>The manifest that prepare_job builds\<close>


lemma add_env_vars_env:
  "container_env (add_env_vars items job) =
     container_env job @ map (\<lambda>(var, val). \<lparr>env_name = var, env_value = val\<rparr>) items"
  by (induction items arbitrary: job) auto

lemma add_env_vars_other:
  "volumes (add_env_vars items job) = volumes job"
  "container_volumeMounts (add_env_vars items job) = container_volumeMounts job"
  "container_command (add_env_vars items job) = container_command job"
  by (induction items arbitrary: job) auto

lemma map_upt_shift: "map f [0..<Suc n] = f 0 # map (\<lambda>i. f (Suc i)) [0..<n]"
proof -
  have "[0..<Suc n] = 0 # map Suc [0..<n]"
    by (simp add: upt_conv_Cons map_Suc_upt del: upt_Suc)
  then show ?thesis
    by (simp add: comp_def del: upt_Suc)
qed

lemma add_cvmfs_repos_volumes:
  "volumes (add_cvmfs_repos vt ns num repos job) =
     volumes job @ map (\<lambda>i. cvmfs_volume vt ns (num + i) (repos ! i)) [0..<length repos]"
proof (induction repos arbitrary: num job)
  case Nil
  then show ?case by simp
next
  case (Cons repo repos)
  have "map (\<lambda>i. cvmfs_volume vt ns (num + i) ((repo # repos) ! i)) [0..<length (repo # repos)]
        = cvmfs_volume vt ns num repo
          # map (\<lambda>i. cvmfs_volume vt ns (Suc num + i) (repos ! i)) [0..<length repos]"
    by (simp add: map_upt_shift del: upt_Suc)
  then show ?case
    by (simp add: Cons.IH append_volume_def)
qed

lemma add_cvmfs_repos_mounts:
  "container_volumeMounts (add_cvmfs_repos vt ns num repos job) =
     container_volumeMounts job
     @ map (\<lambda>i. \<lparr>mount_name = volume_name (cvmfs_volume vt ns (num + i) (repos ! i)),
                  mountPath = get_cvmfs_mount_point vt (repos ! i)\<rparr>) [0..<length repos]"
proof (induction repos arbitrary: num job)
  case Nil
  then show ?case by simp
next
  case (Cons repo repos)
  have "map (\<lambda>i. \<lparr>mount_name = volume_name (cvmfs_volume vt ns (num + i) ((repo # repos) ! i)),
                  mountPath = get_cvmfs_mount_point vt ((repo # repos) ! i)\<rparr>)
            [0..<length (repo # repos)]
        = \<lparr>mount_name = volume_name (cvmfs_volume vt ns num repo),
           mountPath = get_cvmfs_mount_point vt repo\<rparr>
          # map (\<lambda>i. \<lparr>mount_name = volume_name (cvmfs_volume vt ns (Suc num + i) (repos ! i)),
                       mountPath = get_cvmfs_mount_point vt (repos ! i)\<rparr>) [0..<length repos]"
    by (simp add: map_upt_shift del: upt_Suc)
  then show ?case
    by (simp add: Cons.IH append_volume_def)
qed

lemma add_cvmfs_repos_other:
  "container_env (add_cvmfs_repos vt ns num repos job) = container_env job"
  "container_command (add_cvmfs_repos vt ns num repos job) = container_command job"
  by (induction repos arbitrary: num job) (auto simp: append_volume_def)

lemma add_secrets_volumes:
  "volumes (add_secrets num secs job) =
     volumes job
     @ map (\<lambda>i. \<lparr>volume_name = secret_name (num + i),
                  volume_source = [(''secret'', secret (secs ! i))]\<rparr>) [0..<length secs]"
proof (induction secs arbitrary: num job)
  case Nil
  then show ?case by simp
next
  case (Cons sec secs)
  have "map (\<lambda>i. \<lparr>volume_name = secret_name (num + i),
                  volume_source = [(''secret'', secret ((sec # secs) ! i))]\<rparr>)
            [0..<length (sec # secs)]
        = \<lparr>volume_name = secret_name num, volume_source = [(''secret'', secret sec)]\<rparr>
          # map (\<lambda>i. \<lparr>volume_name = secret_name (Suc num + i),
                       volume_source = [(''secret'', secret (secs ! i))]\<rparr>) [0..<length secs]"
    by (simp add: map_upt_shift del: upt_Suc)
  then show ?case
    by (simp add: Cons.IH append_secret_def)
qed

lemma add_secrets_mounts:
  "container_volumeMounts (add_secrets num secs job) =
     container_volumeMounts job
     @ map (\<lambda>i. \<lparr>mount_name = secret_name (num + i),
                  mountPath = secret_mountPath (secs ! i)\<rparr>) [0..<length secs]"
proof (induction secs arbitrary: num job)
  case Nil
  then show ?case by simp
next
  case (Cons sec secs)
  have "map (\<lambda>i. \<lparr>mount_name = secret_name (num + i),
                  mountPath = secret_mountPath ((sec # secs) ! i)\<rparr>)
            [0..<length (sec # secs)]
        = \<lparr>mount_name = secret_name num, mountPath = secret_mountPath sec\<rparr>
          # map (\<lambda>i. \<lparr>mount_name = secret_name (Suc num + i),
                       mountPath = secret_mountPath (secs ! i)\<rparr>) [0..<length secs]"
    by (simp add: map_upt_shift del: upt_Suc)
  then show ?case
    by (simp add: Cons.IH append_secret_def)
qed

lemma add_secrets_other:
  "container_env (add_secrets num secs job) = container_env job"
  "container_command (add_secrets num secs job) = container_command job"
  by (induction secs arbitrary: num job) (auto simp: append_secret_def)



lemma prepare_job_raises:
  "prepare_job vt job_template shlex_split job_id docker_img cmd cvmfs_repos env_vars namespace
     shared_file_system scopesecrets = Inl e \<Longrightarrow>
   e = ValueError \<and> (\<exists>c. cmd = Some c \<and> c \<noteq> [] \<and> shlex_split c = None)"
  by (auto simp: prepare_job_def Let_def split: option.splits if_splits)

lemma prepare_job_command:
  "prepare_job vt job_template shlex_split job_id docker_img cmd cvmfs_repos env_vars namespace
     shared_file_system scopesecrets = Inr job \<Longrightarrow>
   container_command job =
     (case cmd of
        None \<Rightarrow> container_command job_template
      | Some c \<Rightarrow> if c = [] then container_command job_template else shlex_split c)"
  by (auto simp: prepare_job_def Let_def add_env_vars_other add_cvmfs_repos_other
        add_secrets_other add_shared_volume_def append_volume_def
      split: option.splits if_splits)

lemma prepare_job_env:
  "prepare_job vt job_template shlex_split job_id docker_img cmd cvmfs_repos env_vars namespace
     shared_file_system scopesecrets = Inr job \<Longrightarrow>
   container_env job =
     container_env job_template
     @ map (\<lambda>(var, val). \<lparr>env_name = var, env_value = val\<rparr>) env_vars"
  by (auto simp: prepare_job_def Let_def add_env_vars_env add_cvmfs_repos_other
        add_secrets_other add_shared_volume_def append_volume_def
      split: option.splits if_splits)

lemma prepare_job_volumes:
  "prepare_job vt job_template shlex_split job_id docker_img cmd cvmfs_repos env_vars namespace
     shared_file_system scopesecrets = Inr job \<Longrightarrow>
   volumes job =
     volumes job_template
     @ (if shared_file_system then [get_k8s_cephfs_volume vt namespace] else [])
     @ map (\<lambda>i. (get_k8s_cvmfs_volume vt namespace (cvmfs_repos ! i))
                   \<lparr>volume_name :=
                      volume_name (get_k8s_cvmfs_volume vt namespace (cvmfs_repos ! i))
                      @ ''-'' @ str_nat i\<rparr>)
           [0..<length cvmfs_repos]
     @ (if scopesecrets
        then map (\<lambda>i. \<lparr>volume_name = ''secret-'' @ str_nat i,
                        volume_source =
                          [(''secret'', secret (get_k8s_secret_volumes vt namespace ! i))]\<rparr>)
                 [0..<length (get_k8s_secret_volumes vt namespace)]
        else [])"
  by (auto simp: prepare_job_def Let_def add_env_vars_other add_cvmfs_repos_volumes
        add_secrets_volumes add_shared_volume_def append_volume_def cvmfs_volume_def
        secret_name_def
      split: option.splits if_splits)

lemma prepare_job_mounts:
  "prepare_job vt job_template shlex_split job_id docker_img cmd cvmfs_repos env_vars namespace
     shared_file_system scopesecrets = Inr job \<Longrightarrow>
   container_volumeMounts job =
     container_volumeMounts job_template
     @ (if shared_file_system
        then [\<lparr>mount_name = volume_name (get_k8s_cephfs_volume vt namespace),
               mountPath = CEPHFS_MOUNT_PATH vt\<rparr>]
        else [])
     @ map (\<lambda>i. \<lparr>mount_name =
                    volume_name (get_k8s_cvmfs_volume vt namespace (cvmfs_repos ! i))
                    @ ''-'' @ str_nat i,
                  mountPath = get_cvmfs_mount_point vt (cvmfs_repos ! i)\<rparr>)
           [0..<length cvmfs_repos]
     @ (if scopesecrets
        then map (\<lambda>i. \<lparr>mount_name = ''secret-'' @ str_nat i,
                        mountPath = secret_mountPath (get_k8s_secret_volumes vt namespace ! i)\<rparr>)
                 [0..<length (get_k8s_secret_volumes vt namespace)]
        else [])"
  by (auto simp: prepare_job_def Let_def add_env_vars_other add_cvmfs_repos_mounts
        add_secrets_mounts add_shared_volume_def append_volume_def cvmfs_volume_def
        secret_name_def
      split: option.splits if_splits)


text \<open>
  C7. \<open>prepare_job\<close> raises only when \<open>shlex.split\<close> rejects a non-empty command.
  Otherwise the manifest has the template's volumes followed by the shared volume (if
  asked for), one volume for each repository in the order given, which is the volume that
  \<open>volume_templates\<close> gives for the repository with \<open>-i\<close> appended to its name, and one
  volume \<open>secret-i\<close> for each secret of the namespace (if asked for); the volume mounts
  follow the same pattern, with the mount paths of \<open>volume_templates\<close>. The command is the
  template's unless a non-empty command is given, and the environment is the template's
  followed by one entry for each pair. An empty list appends nothing.
\<close>

theorem prepare_job_sections:
  "case prepare_job vt job_template shlex_split job_id docker_img cmd cvmfs_repos env_vars
          namespace shared_file_system scopesecrets of
     Inl e \<Rightarrow> e = ValueError \<and> (\<exists>c. cmd = Some c \<and> c \<noteq> [] \<and> shlex_split c = None)
   | Inr job \<Rightarrow>
       volumes job =
         volumes job_template
         @ (if shared_file_system then [get_k8s_cephfs_volume vt namespace] else [])
         @ map (\<lambda>i. (get_k8s_cvmfs_volume vt namespace (cvmfs_repos ! i))
                       \<lparr>volume_name :=
                          volume_name (get_k8s_cvmfs_volume vt namespace (cvmfs_repos ! i))
                          @ ''-'' @ str_nat i\<rparr>)
               [0..<length cvmfs_repos]
         @ (if scopesecrets
            then map (\<lambda>i. \<lparr>volume_name = ''secret-'' @ str_nat i,
                            volume_source =
                              [(''secret'', secret (get_k8s_secret_volumes vt namespace ! i))]\<rparr>)
                     [0..<length (get_k8s_secret_volumes vt namespace)]
            else [])
       \<and> container_volumeMounts job =
         container_volumeMounts job_template
         @ (if shared_file_system
            then [\<lparr>mount_name = volume_name (get_k8s_cephfs_volume vt namespace),
                   mountPath = CEPHFS_MOUNT_PATH vt\<rparr>]
            else [])
         @ map (\<lambda>i. \<lparr>mount_name =
                        volume_name (get_k8s_cvmfs_volume vt namespace (cvmfs_repos ! i))
                        @ ''-'' @ str_nat i,
                      mountPath = get_cvmfs_mount_point vt (cvmfs_repos ! i)\<rparr>)
               [0..<length cvmfs_repos]
         @ (if scopesecrets
            then map (\<lambda>i. \<lparr>mount_name = ''secret-'' @ str_nat i,
                            mountPath =
                              secret_mountPath (get_k8s_secret_volumes vt namespace ! i)\<rparr>)
                     [0..<length (get_k8s_secret_volumes vt namespace)]
            else [])
       \<and> length (volumes job) =
           length (volumes job_template) + (if shared_file_system then 1 else 0)
           + length cvmfs_repos
           + (if scopesecrets then length (get_k8s_secret_volumes vt namespace) else 0)
       \<and> length (container_volumeMounts job) =
           length (container_volumeMounts job_template) + (if shared_file_system then 1 else 0)
           + length cvmfs_repos
           + (if scopesecrets then length (get_k8s_secret_volumes vt namespace) else 0)
       \<and> container_command job =
           (case cmd of
              None \<Rightarrow> container_command job_template
            | Some c \<Rightarrow> if c = [] then container_command job_template else shlex_split c)
       \<and> container_env job =
           container_env job_template
           @ map (\<lambda>(var, val). \<lparr>env_name = var, env_value = val\<rparr>) env_vars"
proof (cases "prepare_job vt job_template shlex_split job_id docker_img cmd cvmfs_repos env_vars
          namespace shared_file_system scopesecrets")
  case (Inl e)
  then show ?thesis
    using prepare_job_raises [OF Inl] by simp
next
  case (Inr job)
  note v = prepare_job_volumes [OF Inr] and m = prepare_job_mounts [OF Inr]
  have lv: "length (volumes job) =
           length (volumes job_template) + (if shared_file_system then 1 else 0)
           + length cvmfs_repos
           + (if scopesecrets then length (get_k8s_secret_volumes vt namespace) else 0)"
    by (simp add: v)
  have lm: "length (container_volumeMounts job) =
           length (container_volumeMounts job_template) + (if shared_file_system then 1 else 0)
           + length cvmfs_repos
           + (if scopesecrets then length (get_k8s_secret_volumes vt namespace) else 0)"
    by (simp add: m)
  show ?thesis
    unfolding Inr sum.case
    using v m lv lm prepare_job_command [OF Inr] prepare_job_env [OF Inr]
    by blast
qed

text \<open>
  The request of the specification's scenario, with the shared volume and one secret: the
  volumes are the shared one, the two repositories' with the suffixes 0 and 1, and the
  secret's.
\<close>

theorem prepare_job_sections_witness:
  "case prepare_job vt_example template_example split_example ''id-1'' ''busybox''
          (Some ''sleep 1000'') [''atlas-condb'', ''atlas''] [(''HOME'', PStr ''/root'')]
          ''atlas'' True True of
     Inl e \<Rightarrow> False
   | Inr job \<Rightarrow>
       map volume_name (volumes job) =
         [''cephfs-atlas'', ''cvmfs-atlas-condb-0'', ''cvmfs-atlas-1'', ''secret-0'']
       \<and> container_volumeMounts job =
         [\<lparr>mount_name = ''cephfs-atlas'', mountPath = ''/data''\<rparr>,
          \<lparr>mount_name = ''cvmfs-atlas-condb-0'', mountPath = ''/cvmfs/atlas-condb.cern.ch''\<rparr>,
          \<lparr>mount_name = ''cvmfs-atlas-1'', mountPath = ''/cvmfs/atlas.cern.ch''\<rparr>,
          \<lparr>mount_name = ''secret-0'', mountPath = ''/etc/tokens''\<rparr>]
       \<and> container_command job = Some [''sleep'', ''1000'']
       \<and> container_env job = [\<lparr>env_name = ''HOME'', env_value = PStr ''/root''\<rparr>]"
  using prepare_job_sections [where vt = vt_example and job_template = template_example
          and shlex_split = split_example and job_id = "''id-1''" and docker_img = "''busybox''"
          and cmd = "Some ''sleep 1000''" and cvmfs_repos = "[''atlas-condb'', ''atlas'']"
          and env_vars = "[(''HOME'', PStr ''/root'')]" and namespace = "''atlas''"
          and shared_file_system = True and scopesecrets = True]
  by (simp add: vt_example_def template_example_def split_example_def str_nat.simps
      split: sum.splits)

section \<open>What one step of a watcher changes\<close>

lemma db_field_set_field:
  "set_field db j k v = Inr db' \<Longrightarrow>
   db_field db' j' k' = (if j' = j \<and> k' = k then Some v else db_field db j' k')"
  by (auto simp: set_field_def py_item_def db_field_def map_of_py_set
      split: option.splits if_splits)

lemma get_field_db_field:
  "get_field db j k = Inr v \<longleftrightarrow> db_field db j k = Some v"
  by (auto simp: get_field_def py_item_def db_field_def split: option.splits)

lemma get_field_Inl:
  "get_field db j k = Inl e \<Longrightarrow> e = KeyError \<and> db_field db j k = None"
  by (auto simp: get_field_def py_item_def db_field_def split: option.splits)

lemma set_field_Inl:
  "set_field db j k v = Inl e \<Longrightarrow> e = KeyError \<and> map_of db j = None"
  by (auto simp: set_field_def py_item_def split: option.splits)

lemma select_jobs_mem:
  "select_jobs cond db js = Inr us \<Longrightarrow>
   j \<in> set us \<longleftrightarrow> j \<in> set js \<and> (\<exists>job. map_of db j = Some job \<and> cond job = Inr True)"
  by (induction js arbitrary: us)
     (auto simp: py_item_def split: sum.splits option.splits if_splits)

lemma select_jobs_total:
  "(\<And>j. j \<in> set js \<Longrightarrow> \<exists>job b. map_of db j = Some job \<and> cond job = Inr b) \<Longrightarrow>
   \<exists>us. select_jobs cond db js = Inr us"
proof (induction js)
  case Nil
  then show ?case by simp
next
  case (Cons j js)
  from Cons.prems [of j] obtain job b where "map_of db j = Some job" "cond job = Inr b"
    by auto
  moreover from Cons.IH Cons.prems obtain us where "select_jobs cond db js = Inr us"
    by auto
  ultimately show ?case
    by (simp add: py_item_def)
qed

lemma wf_db_lookup:
  "wf_db db \<Longrightarrow> j \<in> fst ` set db \<Longrightarrow>
   \<exists>job. map_of db j = Some job \<and> py_in ''deleted'' job \<and> py_in ''status'' job"
  by (induction db) (auto simp: wf_db_def)

lemma wf_db_jobs:
  assumes "wf_db db"
  shows "\<exists>us. select_jobs not_deleted db (map fst db) = Inr us"
proof (rule select_jobs_total)
  fix j assume "j \<in> set (map fst db)"
  then obtain job where "map_of db j = Some job" "py_in ''deleted'' job"
    using wf_db_lookup [OF assms, of j] by auto
  then show "\<exists>job b. map_of db j = Some job \<and> not_deleted job = Inr b"
    by (auto simp: not_deleted_def py_item_def py_in_def)
qed

lemma wf_db_pods:
  assumes "wf_db db"
  shows "\<exists>us. select_jobs not_deleted_nor_failed db (map fst db) = Inr us"
proof (rule select_jobs_total)
  fix j assume "j \<in> set (map fst db)"
  then obtain job where "map_of db j = Some job" "py_in ''deleted'' job" "py_in ''status'' job"
    using wf_db_lookup [OF assms, of j] by auto
  then show "\<exists>job b. map_of db j = Some job \<and> not_deleted_nor_failed job = Inr b"
    by (auto simp: not_deleted_nor_failed_def py_item_def py_in_def)
qed

lemma not_deleted_True:
  "map_of db j = Some job \<Longrightarrow> not_deleted job = Inr True \<Longrightarrow>
   \<exists>d. db_field db j ''deleted'' = Some d \<and> \<not> truthy d"
  by (auto simp: not_deleted_def py_item_def db_field_def split: option.splits)

lemma not_deleted_nor_failed_True:
  "map_of db j = Some job \<Longrightarrow> not_deleted_nor_failed job = Inr True \<Longrightarrow>
   (\<exists>d. db_field db j ''deleted'' = Some d \<and> \<not> truthy d)
   \<and> (\<exists>st. db_field db j ''status'' = Some st \<and> st \<noteq> PStr ''failed'')"
  by (auto simp: not_deleted_nor_failed_def py_item_def db_field_def split: option.splits if_splits)


lemma field_of_simps [simp]:
  "field_of (s\<lparr>calls := c\<rparr>) = field_of s"
  "field_of (s\<lparr>jobs_pc := pc\<rparr>) = field_of s"
  "field_of (s\<lparr>pods_pc := ppc\<rparr>) = field_of s"
  by (simp_all add: field_of_def fun_eq_iff)

lemma tombstoned_simps [simp]:
  "tombstoned (s\<lparr>calls := c\<rparr>) = tombstoned s"
  "tombstoned (s\<lparr>jobs_pc := pc\<rparr>) = tombstoned s"
  "tombstoned (s\<lparr>pods_pc := ppc\<rparr>) = tombstoned s"
  by (simp_all add: tombstoned_def fun_eq_iff)

lemma guard_passed_pods_pc: "pods_pc s' = pods_pc s \<Longrightarrow> guard_passed s' = guard_passed s"
  by (simp add: guard_passed_def fun_eq_iff)

lemma field_of_set_field:
  "set_field (job_db s) j k v = Inr db' \<Longrightarrow>
   field_of (s\<lparr>job_db := db'\<rparr>) j' k' = (if j' = j \<and> k' = k then Some v else field_of s j' k')"
  by (simp add: field_of_def db_field_set_field)

lemma store_pod_field:
  "field_of (store_pod p j s) j' k' =
     (if j' = j \<and> k' = ''pod'' \<and> map_of (job_db s) j \<noteq> None
         \<and> (case field_of s j ''pod'' of None \<Rightarrow> True | Some v \<Rightarrow> \<not> truthy v)
      then Some (PPod p) else field_of s j' k')"
  by (auto simp: store_pod_def field_of_def db_field_def map_of_py_set py_get_def
      split: option.splits)

lemma store_pod_other [simp]:
  "calls (store_pod p j s) = calls s"
  "jobs_pc (store_pod p j s) = jobs_pc s"
  "pods_pc (store_pod p j s) = pods_pc s"
  by (auto simp: store_pod_def split: option.splits)

lemma store_pod_known:
  "map_of (job_db (store_pod p j s)) j' = None \<longleftrightarrow> map_of (job_db s) j' = None"
  by (auto simp: store_pod_def map_of_py_set split: option.splits)

lemma set_field_fun:
  "set_field db j k v = Inr db' \<Longrightarrow>
   map_of db j \<noteq> None
   \<and> db_field db' = (\<lambda>j' k'. if j' = j \<and> k' = k then Some v else db_field db j' k')"
  by (auto simp: fun_eq_iff db_field_set_field)
     (auto simp: set_field_def py_item_def split: option.splits)

text \<open>What the statements of the pod watcher change, part by part.\<close>

lemma request_logs_simps [simp]:
  "field_of (request_logs event s) = field_of s"
  "jobs_pc (request_logs event s) = jobs_pc s"
  "pods_pc (request_logs event s) = pods_pc s"
  "filter is_DeletePod (calls (request_logs event s)) = filter is_DeletePod (calls s)"
  by (simp_all add: request_logs_def)

lemma store_logs_effect:
  assumes "store_logs event j s = (r, s')"
  shows "jobs_pc s' = jobs_pc s" and "pods_pc s' = pods_pc s"
    and "k' \<noteq> ''log'' \<Longrightarrow> k' \<noteq> ''status'' \<Longrightarrow> field_of s' j' k' = field_of s j' k'"
    and "j' \<noteq> j \<Longrightarrow> field_of s' j' k' = field_of s j' k'"
    and "field_of s' j ''status'' = field_of s j ''status''
         \<or> field_of s' j ''status'' = Some (PStr ''failed'')"
    and "filter is_DeletePod (calls s') = filter is_DeletePod (calls s)"
  using assms
  by (auto simp: store_logs_def Let_def field_of_def
      dest!: set_field_fun split: sum.splits pyval.splits)

lemma note_restarts_effect:
  assumes "note_restarts event j s = Noted r s' \<or> note_restarts event j s = Exceeded s'"
  shows "jobs_pc s' = jobs_pc s" and "pods_pc s' = pods_pc s" and "calls s' = calls s"
    and "k' \<noteq> ''restart_count'' \<Longrightarrow> field_of s' j' k' = field_of s j' k'"
  using assms
  by (auto simp: note_restarts_def Let_def field_of_def
      dest!: set_field_fun split: option.splits list.splits sum.splits bool.splits)

lemma except_KeyError_final:
  "final (except_KeyError (r, s')) = Some s'"
  by (simp add: except_KeyError_def split: option.splits)

lemma unended_pods_not_tombstoned:
  assumes "select_jobs not_deleted_nor_failed (job_db s) (map fst (job_db s)) = Inr us"
    and "j \<in> set us"
  shows "\<not> tombstoned s j" and "field_of s j ''status'' \<noteq> Some (PStr ''failed'')"
    and "map_of (job_db s) j \<noteq> None"
  using assms not_deleted_nor_failed_True [of "job_db s" j]
  by (auto simp: select_jobs_mem tombstoned_def field_of_def)

lemma unended_jobs_not_tombstoned:
  assumes "select_jobs not_deleted (job_db s) (map fst (job_db s)) = Inr us"
    and "j \<in> set us"
  shows "\<not> tombstoned s j" and "map_of (job_db s) j \<noteq> None"
  using assms not_deleted_True [of "job_db s" j]
  by (auto simp: select_jobs_mem tombstoned_def field_of_def)

lemma pods_guard_effect:
  assumes "final (pods_guard event s) = Some s'" and "pods_pc s = PodsIdle"
  shows "field_of s' = field_of s" and "calls s' = calls s" and "jobs_pc s' = jobs_pc s"
    and "tombstoned s j \<Longrightarrow> \<not> guard_passed s' j"
proof -
  show "field_of s' = field_of s" and "calls s' = calls s" and "jobs_pc s' = jobs_pc s"
    using assms(1) by (auto simp: pods_guard_def split: sum.splits)
  show "\<not> guard_passed s' j" if t: "tombstoned s j"
  proof (cases "select_jobs not_deleted_nor_failed (job_db s) (map fst (job_db s))")
    case (Inl e)
    with assms show ?thesis
      by (simp add: pods_guard_def guard_passed_def)
  next
    case (Inr us)
    with assms(1) have "pods_pc s' = PodsGuarded event us"
      by (auto simp: pods_guard_def)
    with unended_pods_not_tombstoned(1) [OF Inr, of j] t show ?thesis
      by (auto simp: guard_passed_def)
  qed
qed

lemma pods_proceed_effect:
  assumes "final (pods_proceed event us s) = Some s'"
  shows "jobs_pc s' = jobs_pc s"
    and "k \<noteq> ''pod'' \<Longrightarrow> k \<noteq> ''restart_count'' \<Longrightarrow> field_of s' j k = field_of s j k"
    and "field_of s j ''pod'' = Some v \<Longrightarrow> truthy v \<Longrightarrow> field_of s' j ''pod'' = Some v"
    and "filter is_DeletePod (calls s') = filter is_DeletePod (calls s)"
    and "pods_pc s' = PodsIdle
         \<or> (pods_pc s' = PodsLogs event (job_name_of_pod (pod_name (event_pod event)))
            \<and> job_name_of_pod (pod_name (event_pod event)) \<in> set us)"
proof -
  let ?n = "job_name_of_pod (pod_name (event_pod event))"
  let ?s1 = "store_pod (event_pod event) ?n (s\<lparr>pods_pc := PodsIdle\<rparr>)"
  have s1: "k \<noteq> ''pod'' \<Longrightarrow> field_of ?s1 j k = field_of s j k"
    "field_of s j ''pod'' = Some v \<Longrightarrow> truthy v \<Longrightarrow> field_of ?s1 j ''pod'' = Some v"
    "jobs_pc ?s1 = jobs_pc s" "calls ?s1 = calls s" "pods_pc ?s1 = PodsIdle"
    by (auto simp: store_pod_field)
  have "jobs_pc s' = jobs_pc s
    \<and> (k \<noteq> ''pod'' \<longrightarrow> k \<noteq> ''restart_count'' \<longrightarrow> field_of s' j k = field_of s j k)
    \<and> (field_of s j ''pod'' = Some v \<longrightarrow> truthy v \<longrightarrow> field_of s' j ''pod'' = Some v)
    \<and> filter is_DeletePod (calls s') = filter is_DeletePod (calls s)
    \<and> (pods_pc s' = PodsIdle \<or> (pods_pc s' = PodsLogs event ?n \<and> ?n \<in> set us))"
  proof (cases "?n \<in> set us")
    case False
    with assms have "s' = ?s1"
      by (simp add: pods_proceed_def Let_def)
    with s1 show ?thesis
      by simp
  next
    case True
    show ?thesis
    proof (cases "note_restarts event ?n ?s1")
      case (Noted r t)
      with assms True have "s' = t"
        by (simp add: pods_proceed_def Let_def except_KeyError_final)
      with Noted have n: "note_restarts event ?n ?s1 = Noted r s'
                          \<or> note_restarts event ?n ?s1 = Exceeded s'"
        by simp
      show ?thesis
        using note_restarts_effect(1-3) [OF n] note_restarts_effect(4) [OF n, of k j]
          note_restarts_effect(4) [OF n, of "''pod''" j] s1
        by auto
    next
      case (Exceeded t)
      with assms True have s': "s' = (request_logs event t)\<lparr>pods_pc := PodsLogs event ?n\<rparr>"
        by (simp add: pods_proceed_def Let_def)
      from Exceeded have n: "note_restarts event ?n ?s1 = Noted None t
                          \<or> note_restarts event ?n ?s1 = Exceeded t"
        by simp
      show ?thesis
        using note_restarts_effect(1-3) [OF n] note_restarts_effect(4) [OF n, of k j]
          note_restarts_effect(4) [OF n, of "''pod''" j] s1 True
        by (auto simp: s')
    qed
  qed
  then show "jobs_pc s' = jobs_pc s"
    and "k \<noteq> ''pod'' \<Longrightarrow> k \<noteq> ''restart_count'' \<Longrightarrow> field_of s' j k = field_of s j k"
    and "field_of s j ''pod'' = Some v \<Longrightarrow> truthy v \<Longrightarrow> field_of s' j ''pod'' = Some v"
    and "filter is_DeletePod (calls s') = filter is_DeletePod (calls s)"
    and "pods_pc s' = PodsIdle \<or> (pods_pc s' = PodsLogs event ?n \<and> ?n \<in> set us)"
    by blast+
qed

lemma pods_logs_return_effect:
  assumes "final (pods_logs_return event n s) = Some s'"
  shows "jobs_pc s' = jobs_pc s" and "pods_pc s' = PodsIdle"
    and "k \<noteq> ''log'' \<Longrightarrow> k \<noteq> ''status'' \<Longrightarrow> field_of s' j k = field_of s j k"
    and "j \<noteq> n \<Longrightarrow> field_of s' j k = field_of s j k"
    and "field_of s' n ''status'' = field_of s n ''status''
         \<or> field_of s' n ''status'' = Some (PStr ''failed'')"
    and "filter is_DeletePod (calls s') = filter is_DeletePod (calls s)"
proof -
  obtain r t where t: "store_logs event n (s\<lparr>pods_pc := PodsIdle\<rparr>) = (r, t)"
    by (cases "store_logs event n (s\<lparr>pods_pc := PodsIdle\<rparr>)")
  with assms have "s' = t"
    by (simp add: pods_logs_return_def except_KeyError_final)
  with t have e: "store_logs event n (s\<lparr>pods_pc := PodsIdle\<rparr>) = (r, s')"
    by simp
  show "jobs_pc s' = jobs_pc s" and "pods_pc s' = PodsIdle"
    and "k \<noteq> ''log'' \<Longrightarrow> k \<noteq> ''status'' \<Longrightarrow> field_of s' j k = field_of s j k"
    and "j \<noteq> n \<Longrightarrow> field_of s' j k = field_of s j k"
    and "field_of s' n ''status'' = field_of s n ''status''
         \<or> field_of s' n ''status'' = Some (PStr ''failed'')"
    and "filter is_DeletePod (calls s') = filter is_DeletePod (calls s)"
    using store_logs_effect(1,2) [OF e] store_logs_effect(3) [OF e, of k j]
      store_logs_effect(4) [OF e, of j k] store_logs_effect(5,6) [OF e]
    by simp_all
qed

lemma watch_jobs_event_effect:
  assumes "final (watch_jobs_event event s) = Some s'"
  shows "field_of s' j ''status'' = field_of s j ''status''
         \<or> (\<not> tombstoned s j
             \<and> (field_of s' j ''status'' = Some (PStr ''succeeded'')
                 \<or> field_of s' j ''status'' = Some (PStr ''failed'')))"
    and "k \<noteq> ''status'' \<Longrightarrow> field_of s' j k = field_of s j k"
    and "filter is_DeletePod (calls s') = filter is_DeletePod (calls s)"
    and "pods_pc s' = pods_pc s"
proof -
  have "(field_of s' j ''status'' = field_of s j ''status''
         \<or> (\<not> tombstoned s j
             \<and> (field_of s' j ''status'' = Some (PStr ''succeeded'')
                 \<or> field_of s' j ''status'' = Some (PStr ''failed''))))
    \<and> (k \<noteq> ''status'' \<longrightarrow> field_of s' j k = field_of s j k)
    \<and> filter is_DeletePod (calls s') = filter is_DeletePod (calls s)
    \<and> pods_pc s' = pods_pc s"
  proof (cases "select_jobs not_deleted (job_db s) (map fst (job_db s))")
    case (Inl e)
    with assms show ?thesis
      by (simp add: watch_jobs_event_def)
  next
    case (Inr us)
    show ?thesis
    proof (cases "event_job_name event \<in> set us")
      case False
      with assms Inr show ?thesis
        by (simp add: watch_jobs_event_def)
    next
      case True
      note nt = unended_jobs_not_tombstoned(1) [OF Inr True]
      from assms Inr True nt show ?thesis
        by (auto simp: watch_jobs_event_def job_succeeded_def job_failed_def field_of_def
            tombstoned_def
            dest!: set_field_fun split: if_splits option.splits sum.splits)
    qed
  qed
  then show "field_of s' j ''status'' = field_of s j ''status''
         \<or> (\<not> tombstoned s j
             \<and> (field_of s' j ''status'' = Some (PStr ''succeeded'')
                 \<or> field_of s' j ''status'' = Some (PStr ''failed'')))"
    and "k \<noteq> ''status'' \<Longrightarrow> field_of s' j k = field_of s j k"
    and "filter is_DeletePod (calls s') = filter is_DeletePod (calls s)"
    and "pods_pc s' = pods_pc s"
    by blast+
qed

lemma poll_pod_effect:
  assumes "final (poll_pod name s) = Some s'"
  shows "field_of s' = field_of s" and "calls s' = calls s" and "pods_pc s' = pods_pc s"
  using assms by (auto simp: poll_pod_def split: sum.splits if_splits)

lemma poll_exists_effect:
  assumes "final (poll_exists name exists s) = Some s'"
  shows "k \<noteq> ''deleted'' \<Longrightarrow> field_of s' j k = field_of s j k"
    and "field_of s' j ''deleted'' = field_of s j ''deleted''
         \<or> field_of s' j ''deleted'' = Some (PBool True)"
    and "pods_pc s' = pods_pc s"
  using assms
  by (auto simp: poll_exists_def Let_def field_of_def
      dest!: set_field_fun split: sum.splits if_splits pyval.splits)

text \<open>
  Taken one after the other, with no step of the job watcher in between, the three steps
  of the pod watcher are the body of its loop.
\<close>

lemma watch_pods_event_in_steps:
  assumes "pods_pc s = PodsIdle"
  shows "watch_pods_event event s =
     (case step (PodEvent event) s of
        Normal s1 \<Rightarrow>
          (case step PodProceed s1 of
             Normal s2 \<Rightarrow>
               (case pods_pc s2 of
                  PodsLogs e n \<Rightarrow> step PodLogsReturn s2
                | _ \<Rightarrow> Normal s2)
           | Raised e s2 \<Rightarrow> Raised e s2
           | NotEnabled \<Rightarrow> NotEnabled)
      | Raised e s1 \<Rightarrow> Raised e s1
      | NotEnabled \<Rightarrow> NotEnabled)"
proof (cases "select_jobs not_deleted_nor_failed (job_db s) (map fst (job_db s))")
  case (Inl e)
  with assms show ?thesis
    by (simp add: watch_pods_event_def pods_guard_def)
next
  case (Inr us)
  let ?n = "job_name_of_pod (pod_name (event_pod event))"
  let ?s1 = "store_pod (event_pod event) ?n s"
  have idle: "pods_pc ?s1 = PodsIdle"
    using assms by simp
  have g: "pods_guard event s = Normal (s\<lparr>pods_pc := PodsGuarded event us\<rparr>)"
    "s\<lparr>pods_pc := PodsIdle\<rparr> = s"
    using assms Inr by (simp_all add: pods_guard_def)
  show ?thesis
  proof (cases "?n \<in> set us")
    case False
    with Inr assms idle show ?thesis
      by (simp add: g watch_pods_event_def pods_proceed_def Let_def)
  next
    case True
    show ?thesis
    proof (cases "note_restarts event ?n ?s1")
      case (Noted r t)
      then have "pods_pc t = PodsIdle"
        using note_restarts_effect(2) [of event ?n ?s1 r t] idle by simp
      with Inr assms True Noted show ?thesis
        by (auto simp: g watch_pods_event_def pods_proceed_def Let_def take_note_def
            except_KeyError_def split: option.splits)
    next
      case (Exceeded t)
      then have "pods_pc t = PodsIdle"
        using note_restarts_effect(2) [of event ?n ?s1 None t] idle by simp
      then have "(request_logs event t)\<lparr>pods_pc := PodsIdle\<rparr> = request_logs event t"
        by (simp add: request_logs_def)
      with Inr assms True Exceeded show ?thesis
        by (simp add: g watch_pods_event_def pods_proceed_def Let_def take_note_def
            escalate_def pods_logs_return_def)
    qed
  qed
qed

lemma step_effect:
  assumes "final (step a s) = Some s'"
  shows "field_of s' j ''status'' = field_of s j ''status''
         \<or> field_of s' j ''status'' = Some (PStr ''succeeded'')
         \<or> field_of s' j ''status'' = Some (PStr ''failed'')"
    and "tombstoned s j \<Longrightarrow> tombstoned s' j"
    and "field_of s j ''pod'' = Some v \<Longrightarrow> truthy v \<Longrightarrow> field_of s' j ''pod'' = Some v"
    and "tombstoned s j \<Longrightarrow> \<not> guard_passed s j \<Longrightarrow>
         field_of s' j ''status'' = field_of s j ''status'' \<and> \<not> guard_passed s' j"
proof -
  have "(field_of s' j ''status'' = field_of s j ''status''
         \<or> field_of s' j ''status'' = Some (PStr ''succeeded'')
         \<or> field_of s' j ''status'' = Some (PStr ''failed''))
    \<and> (tombstoned s j \<longrightarrow> tombstoned s' j)
    \<and> (field_of s j ''pod'' = Some v \<longrightarrow> truthy v \<longrightarrow> field_of s' j ''pod'' = Some v)
    \<and> (tombstoned s j \<longrightarrow> \<not> guard_passed s j \<longrightarrow>
         field_of s' j ''status'' = field_of s j ''status'' \<and> \<not> guard_passed s' j)"
  proof (cases a)
    case (JobEvent event)
    with assms have f: "final (watch_jobs_event event s) = Some s'"
      by (simp split: jobs_pc.splits)
    show ?thesis
      using watch_jobs_event_effect(1) [OF f, of j]
        watch_jobs_event_effect(2) [OF f, of "''deleted''" j]
        watch_jobs_event_effect(2) [OF f, of "''pod''" j]
        guard_passed_pods_pc [OF watch_jobs_event_effect(4) [OF f]]
      by (auto simp: tombstoned_def)
  next
    case PollPod
    with assms obtain name where f: "final (poll_pod name s) = Some s'"
      by (auto split: jobs_pc.splits)
    show ?thesis
      using poll_pod_effect(1) [OF f] guard_passed_pods_pc [OF poll_pod_effect(3) [OF f]]
      by (auto simp: tombstoned_def)
  next
    case (PollExists exists)
    with assms obtain name where f: "final (poll_exists name exists s) = Some s'"
      by (auto split: jobs_pc.splits)
    show ?thesis
      using poll_exists_effect(1) [OF f, of "''status''" j]
        poll_exists_effect(1) [OF f, of "''pod''" j] poll_exists_effect(2) [OF f, of j]
        guard_passed_pods_pc [OF poll_exists_effect(3) [OF f]]
      by (auto simp: tombstoned_def)
  next
    case (PodEvent event)
    with assms have idle: "pods_pc s = PodsIdle" and f: "final (pods_guard event s) = Some s'"
      by (auto split: pods_pc.splits)
    show ?thesis
      using pods_guard_effect(1) [OF f idle] pods_guard_effect(4) [OF f idle, of j]
      by (auto simp: tombstoned_def)
  next
    case PodProceed
    with assms obtain event us where pc: "pods_pc s = PodsGuarded event us"
      and f: "final (pods_proceed event us s) = Some s'"
      by (auto split: pods_pc.splits)
    show ?thesis
      using pods_proceed_effect(2) [OF f, of "''status''" j]
        pods_proceed_effect(2) [OF f, of "''deleted''" j]
        pods_proceed_effect(3) [OF f, of j v] pods_proceed_effect(5) [OF f] pc
      by (auto simp: tombstoned_def guard_passed_def)
  next
    case PodLogsReturn
    with assms obtain event n where pc: "pods_pc s = PodsLogs event n"
      and f: "final (pods_logs_return event n s) = Some s'"
      by (auto split: pods_pc.splits)
    show ?thesis
      using pods_logs_return_effect(2) [OF f]
        pods_logs_return_effect(3) [OF f, of "''deleted''" j]
        pods_logs_return_effect(3) [OF f, of "''pod''" j]
        pods_logs_return_effect(4) [OF f, of j "''status''"]
        pods_logs_return_effect(5) [OF f] pc
      by (cases "j = n") (auto simp: tombstoned_def guard_passed_def)
  qed
  then show "field_of s' j ''status'' = field_of s j ''status''
         \<or> field_of s' j ''status'' = Some (PStr ''succeeded'')
         \<or> field_of s' j ''status'' = Some (PStr ''failed'')"
    and "tombstoned s j \<Longrightarrow> tombstoned s' j"
    and "field_of s j ''pod'' = Some v \<Longrightarrow> truthy v \<Longrightarrow> field_of s' j ''pod'' = Some v"
    and "tombstoned s j \<Longrightarrow> \<not> guard_passed s j \<Longrightarrow>
         field_of s' j ''status'' = field_of s j ''status'' \<and> \<not> guard_passed s' j"
    by blast+
qed

lemma run_Cons_final:
  assumes "final (run (a # as) s) = Some s'"
  obtains s1 where "final (step a s) = Some s1"
    and "s' = s1 \<or> final (run as s1) = Some s'"
  using assms by (cases "step a s") auto

section \<open>Lemmas on the table and on single steps\<close>

lemma set_field_known:
  "map_of db j = Some job \<Longrightarrow> set_field db j k v = Inr (py_set db j (py_set job k v))"
  by (simp add: set_field_def py_item_def)

lemma get_field_known:
  "map_of db j = Some job \<Longrightarrow> get_field db j k = py_item job k"
  by (simp add: get_field_def py_item_def)

lemma py_set_py_set: "py_set (py_set db j a) j b = py_set db j b"
  by (simp add: py_set_def AList.update_last)

lemma py_in_py_set: "py_in k (py_set job k' v) \<longleftrightarrow> k = k' \<or> py_in k job"
  by (auto simp: py_in_def map_of_py_set)

lemma list_all_update:
  "list_all P al \<Longrightarrow> P (k, v) \<Longrightarrow> list_all P (AList.update k v al)"
  by (induction al) auto

lemma wf_db_py_set_job:
  "wf_db db \<Longrightarrow> py_in ''deleted'' job \<Longrightarrow> py_in ''status'' job \<Longrightarrow> wf_db (py_set db j job)"
  unfolding wf_db_def py_set_def
  by (intro list_all_update) simp_all

lemma wf_db_known:
  assumes "wf_db db" and "map_of db j = Some job"
  shows "py_in ''deleted'' job" and "py_in ''status'' job"
proof -
  have "j \<in> fst ` set db"
    using assms(2) by (metis map_of_eq_None_iff option.distinct(1))
  from wf_db_lookup [OF assms(1) this] assms(2)
  show "py_in ''deleted'' job" and "py_in ''status'' job"
    by simp_all
qed

lemma wf_db_py_set:
  assumes "wf_db db" and "map_of db j = Some job"
  shows "wf_db (py_set db j (py_set job k v))"
proof -
  have "j \<in> fst ` set db"
    using assms(2) by (metis map_of_eq_None_iff option.distinct(1))
  from wf_db_lookup [OF assms(1) this] assms(2)
  have "py_in ''deleted'' job \<and> py_in ''status'' job"
    by simp
  with assms(1) show ?thesis
    unfolding wf_db_def py_set_def [of db]
    by (intro list_all_update) (simp_all add: py_in_py_set)
qed

lemma take_note_escalates:
  assumes "map_of (job_db s) j = Some job"
    and "reported (event_pod event) = Some (restarts, Some exit_code)"
    and "0 < exit_code"
    and "map_of job ''max_restart_count'' = Some (PInt m)" and "m \<le> restarts"
    and "map_of job ''obj'' = Some (PJob h)"
  shows "take_note event j s =
     (None,
      s\<lparr>calls := calls s @ [PodLogs (pod_name (event_pod event))],
        job_db := py_set (job_db s) j
          (py_set (py_set (py_set job ''restart_count'' (PInt restarts))
                     ''log'' (PStr (event_pod_logs event)))
             ''status'' (PStr ''failed'')),
        calls := calls s @ [PodLogs (pod_name (event_pod event))] @ [DeleteJob h]\<rparr>)"
  using assms
  by (auto simp: take_note_def note_restarts_def reported_def escalate_def request_logs_def
        store_logs_def Let_def set_field_known get_field_known map_of_py_set py_set_py_set
        py_item_def py_ge_def py_gt0_def
      split: option.splits list.splits)


lemma store_pod_lookup:
  "map_of (job_db s) j = Some job \<Longrightarrow>
   \<exists>job1. map_of (job_db (store_pod p n s)) j = Some job1
     \<and> (\<forall>k. k \<noteq> ''pod'' \<longrightarrow> map_of job1 k = map_of job k)
     \<and> (n = j \<longrightarrow> truthy (py_get job1 ''pod''))
     \<and> (truthy (py_get job ''pod'') \<longrightarrow> job1 = job)"
  by (auto simp: store_pod_def map_of_py_set py_get_def split: option.splits)

lemma wf_db_store_pod: "wf_db (job_db s) \<Longrightarrow> wf_db (job_db (store_pod p n s))"
  by (auto simp: store_pod_def wf_db_py_set split: option.splits)

lemma store_pod_attached:
  "map_of (job_db s) n = Some job \<Longrightarrow> truthy (py_get job ''pod'') \<Longrightarrow> store_pod p n s = s"
  by (simp add: store_pod_def)

lemma unended_pods_mem:
  assumes "wf_db (job_db s)" and "map_of (job_db s) j = Some job"
  obtains us where "select_jobs not_deleted_nor_failed (job_db s) (map fst (job_db s)) = Inr us"
    and "j \<in> set us \<longleftrightarrow> \<not> truthy (py_get job ''deleted'') \<and> map_of job ''status'' \<noteq> Some (PStr ''failed'')"
proof -
  from wf_db_pods [OF assms(1)] obtain us
    where us: "select_jobs not_deleted_nor_failed (job_db s) (map fst (job_db s)) = Inr us"
    by blast
  have j: "j \<in> fst ` set (job_db s)"
    using assms(2) by (metis map_of_eq_None_iff option.distinct(1))
  from wf_db_lookup [OF assms(1) j] assms(2)
  have keys: "py_in ''deleted'' job" "py_in ''status'' job"
    by simp_all
  have "j \<in> set us \<longleftrightarrow> \<not> truthy (py_get job ''deleted'') \<and> map_of job ''status'' \<noteq> Some (PStr ''failed'')"
    using keys j assms(2)
    by (auto simp: select_jobs_mem [OF us] not_deleted_nor_failed_def py_item_def py_get_def
        py_in_def split: option.splits)
  with us show ?thesis
    by (rule that)
qed



lemma unended_jobs_mem:
  assumes "wf_db (job_db s)"
  obtains us where "select_jobs not_deleted (job_db s) (map fst (job_db s)) = Inr us"
    and "\<And>j. j \<in> set us \<Longrightarrow> \<not> tombstoned s j"
proof -
  from wf_db_jobs [OF assms] obtain us
    where us: "select_jobs not_deleted (job_db s) (map fst (job_db s)) = Inr us"
    by blast
  show ?thesis
    using us unended_jobs_not_tombstoned(1) [OF us] by (rule that)
qed

lemma take_note_key_missing:
  "status_key_missing (event_pod event) \<Longrightarrow> take_note event j s = (Some KeyError, s)"
  by (auto simp: take_note_def note_restarts_def status_key_missing_def
      split: option.splits list.splits)

lemma take_note_below_max:
  assumes "map_of (job_db s) j = Some job"
    and "reported (event_pod event) = Some (restarts, None)"
    and "map_of job ''max_restart_count'' = Some (PInt m)" and "restarts < m"
  shows "take_note event j s =
     (None, s\<lparr>job_db := py_set (job_db s) j (py_set job ''restart_count'' (PInt restarts))\<rparr>)"
  using assms
  by (auto simp: take_note_def note_restarts_def reported_def Let_def set_field_known
        get_field_known map_of_py_set py_item_def py_ge_def
      split: option.splits list.splits)




lemma pod_step_effect:
  assumes "(\<exists>event. a = PodEvent event) \<or> a = PodProceed \<or> a = PodLogsReturn"
    and "final (step a s) = Some s'"
  shows "jobs_pc s' = jobs_pc s"
    and "field_of s' j ''deleted'' = field_of s j ''deleted''"
    and "filter is_DeletePod (calls s') = filter is_DeletePod (calls s)"
proof -
  have "jobs_pc s' = jobs_pc s \<and> field_of s' j ''deleted'' = field_of s j ''deleted''
        \<and> filter is_DeletePod (calls s') = filter is_DeletePod (calls s)"
  proof (cases a)
    case (PodEvent ev)
    with assms(2) have idle: "pods_pc s = PodsIdle" and f: "final (pods_guard ev s) = Some s'"
      by (auto split: pods_pc.splits)
    from pods_guard_effect(1-3) [OF f idle] show ?thesis
      by simp
  next
    case PodProceed
    with assms(2) obtain ev us where f: "final (pods_proceed ev us s) = Some s'"
      by (auto split: pods_pc.splits)
    from pods_proceed_effect(1) [OF f] pods_proceed_effect(2) [OF f, of "''deleted''" j]
      pods_proceed_effect(4) [OF f]
    show ?thesis
      by simp
  next
    case PodLogsReturn
    with assms(2) obtain ev n where f: "final (pods_logs_return ev n s) = Some s'"
      by (auto split: pods_pc.splits)
    from pods_logs_return_effect(1) [OF f] pods_logs_return_effect(3) [OF f, of "''deleted''" j]
      pods_logs_return_effect(6) [OF f]
    show ?thesis
      by simp
  qed (use assms(1) in auto)
  then show "jobs_pc s' = jobs_pc s"
    and "field_of s' j ''deleted'' = field_of s j ''deleted''"
    and "filter is_DeletePod (calls s') = filter is_DeletePod (calls s)"
    by blast+
qed

lemma watch_jobs_event_pc:
  assumes "final (watch_jobs_event event s) = Some s'"
  shows "jobs_pc s' = jobs_pc s
         \<or> (jobs_pc s' = WaitPod (event_job_name event) \<and> event_type event = ''DELETED''
            \<and> \<not> tombstoned s (event_job_name event))"
proof (cases "select_jobs not_deleted (job_db s) (map fst (job_db s))")
  case (Inl e)
  with assms show ?thesis
    by (simp add: watch_jobs_event_def)
next
  case (Inr us)
  with assms unended_jobs_not_tombstoned(1) [OF Inr, of "event_job_name event"] show ?thesis
    by (auto simp: watch_jobs_event_def job_succeeded_def job_failed_def
        split: if_splits option.splits sum.splits)
qed

lemma poll_pod_pc:
  assumes "final (poll_pod name s) = Some s'"
  shows "jobs_pc s' = jobs_pc s
         \<or> (jobs_pc s' = WaitGone name \<and> (\<exists>v. field_of s name ''pod'' = Some v \<and> truthy v))"
  using assms
  by (auto simp: poll_pod_def py_item_def py_get_def field_of_def db_field_def
      split: option.splits if_splits)

lemma db_field_known: "db_field db j k = Some v \<Longrightarrow> map_of db j \<noteq> None"
  by (auto simp: db_field_def split: option.splits)

lemma poll_exists_cases:
  assumes "final (poll_exists name exists s) = Some s'"
  shows "(filter is_DeletePod (calls s') = filter is_DeletePod (calls s)
          \<and> field_of s' = field_of s \<and> (jobs_pc s' = jobs_pc s))
         \<or> (\<not> exists \<and> (\<exists>p. field_of s name ''pod'' = Some (PPod p)
                \<and> calls s' = calls s @ [JobExists name, DeletePod (pod_name p)]
                \<and> field_of s' = (\<lambda>j k. if j = name \<and> k = ''deleted'' then Some (PBool True)
                                         else field_of s j k)
                \<and> jobs_pc s' = Idle))"
  using assms
  by (auto simp: poll_exists_def Let_def field_of_def fun_eq_iff get_field_db_field
      dest!: set_field_fun set_field_Inl get_field_Inl dest: db_field_known
      split: sum.splits if_splits pyval.splits)


lemma step_deletes_pod:
  assumes "final (step a s) = Some s'"
    and "filter is_DeletePod (calls s') \<noteq> filter is_DeletePod (calls s)
         \<or> (tombstoned s' j \<and> \<not> tombstoned s j)"
  shows "\<exists>n p. a = PollExists False \<and> jobs_pc s = WaitGone n
           \<and> field_of s n ''pod'' = Some (PPod p)
           \<and> calls s' = calls s @ [JobExists n, DeletePod (pod_name p)]
           \<and> (tombstoned s' j \<and> \<not> tombstoned s j \<longrightarrow> j = n)"
proof (cases a)
  case (JobEvent event)
  with assms(1) have f: "final (watch_jobs_event event s) = Some s'"
    by (simp split: jobs_pc.splits)
  from watch_jobs_event_effect(2) [OF f, of "''deleted''" j] watch_jobs_event_effect(3) [OF f]
    assms(2)
  show ?thesis
    by (simp add: tombstoned_def)
next
  case PollPod
  with assms(1) obtain name where "final (poll_pod name s) = Some s'"
    by (auto split: jobs_pc.splits)
  from poll_pod_effect [OF this] assms(2) show ?thesis
    by (simp add: tombstoned_def)
next
  case (PodEvent event)
  then have pa: "(\<exists>event. a = PodEvent event) \<or> a = PodProceed \<or> a = PodLogsReturn"
    by simp
  from pod_step_effect(2) [OF pa assms(1), of j] pod_step_effect(3) [OF pa assms(1)] assms(2)
  show ?thesis
    by (simp add: tombstoned_def)
next
  case PodProceed
  then have pa: "(\<exists>event. a = PodEvent event) \<or> a = PodProceed \<or> a = PodLogsReturn"
    by simp
  from pod_step_effect(2) [OF pa assms(1), of j] pod_step_effect(3) [OF pa assms(1)] assms(2)
  show ?thesis
    by (simp add: tombstoned_def)
next
  case PodLogsReturn
  then have pa: "(\<exists>event. a = PodEvent event) \<or> a = PodProceed \<or> a = PodLogsReturn"
    by simp
  from pod_step_effect(2) [OF pa assms(1), of j] pod_step_effect(3) [OF pa assms(1)] assms(2)
  show ?thesis
    by (simp add: tombstoned_def)
next
  case (PollExists exists)
  with assms(1) obtain name where pc: "jobs_pc s = WaitGone name"
    and f: "final (poll_exists name exists s) = Some s'"
    by (auto split: jobs_pc.splits)
  from poll_exists_cases [OF f] assms(2) PollExists pc show ?thesis
    by (auto simp: tombstoned_def split: if_splits)
qed

lemma step_enters_WaitGone:
  assumes "final (step a s) = Some s'"
    and "jobs_pc s' = WaitGone n" and "jobs_pc s \<noteq> WaitGone n"
  shows "a = PollPod \<and> jobs_pc s = WaitPod n \<and> (\<exists>v. field_of s n ''pod'' = Some v \<and> truthy v)"
proof (cases a)
  case (JobEvent event)
  with assms(1) have "final (watch_jobs_event event s) = Some s'"
    by (simp split: jobs_pc.splits)
  from watch_jobs_event_pc [OF this] assms(2,3) show ?thesis
    by auto
next
  case PollPod
  with assms(1) obtain name where "jobs_pc s = WaitPod name" "final (poll_pod name s) = Some s'"
    by (auto split: jobs_pc.splits)
  with poll_pod_pc [of name s s'] assms(2,3) PollPod show ?thesis
    by auto
next
  case (PodEvent event)
  then have pa: "(\<exists>event. a = PodEvent event) \<or> a = PodProceed \<or> a = PodLogsReturn"
    by simp
  from pod_step_effect(1) [OF pa assms(1)] assms(2,3) show ?thesis
    by simp
next
  case PodProceed
  then have pa: "(\<exists>event. a = PodEvent event) \<or> a = PodProceed \<or> a = PodLogsReturn"
    by simp
  from pod_step_effect(1) [OF pa assms(1)] assms(2,3) show ?thesis
    by simp
next
  case PodLogsReturn
  then have pa: "(\<exists>event. a = PodEvent event) \<or> a = PodProceed \<or> a = PodLogsReturn"
    by simp
  from pod_step_effect(1) [OF pa assms(1)] assms(2,3) show ?thesis
    by simp
next
  case (PollExists exists)
  with assms(1) obtain name where "final (poll_exists name exists s) = Some s'"
    by (auto split: jobs_pc.splits)
  from poll_exists_cases [OF this] assms(2,3) show ?thesis
    by auto
qed

lemma step_enters_WaitPod:
  assumes "final (step a s) = Some s'"
    and "jobs_pc s' = WaitPod n" and "jobs_pc s \<noteq> WaitPod n"
  shows "\<exists>event. a = JobEvent event \<and> event_type event = ''DELETED''
           \<and> event_job_name event = n \<and> jobs_pc s = Idle \<and> \<not> tombstoned s n"
proof (cases a)
  case (JobEvent event)
  with assms(1) have "jobs_pc s = Idle" "final (watch_jobs_event event s) = Some s'"
    by (simp_all split: jobs_pc.splits)
  with watch_jobs_event_pc [of event s s'] assms(2,3) JobEvent show ?thesis
    by auto
next
  case PollPod
  with assms(1) obtain name where "final (poll_pod name s) = Some s'"
    by (auto split: jobs_pc.splits)
  from poll_pod_pc [OF this] assms(2,3) show ?thesis
    by auto
next
  case (PodEvent event)
  then have pa: "(\<exists>event. a = PodEvent event) \<or> a = PodProceed \<or> a = PodLogsReturn"
    by simp
  from pod_step_effect(1) [OF pa assms(1)] assms(2,3) show ?thesis
    by simp
next
  case PodProceed
  then have pa: "(\<exists>event. a = PodEvent event) \<or> a = PodProceed \<or> a = PodLogsReturn"
    by simp
  from pod_step_effect(1) [OF pa assms(1)] assms(2,3) show ?thesis
    by simp
next
  case PodLogsReturn
  then have pa: "(\<exists>event. a = PodEvent event) \<or> a = PodProceed \<or> a = PodLogsReturn"
    by simp
  from pod_step_effect(1) [OF pa assms(1)] assms(2,3) show ?thesis
    by simp
next
  case (PollExists exists)
  with assms(1) obtain name where "final (poll_exists name exists s) = Some s'"
    by (auto split: jobs_pc.splits)
  from poll_exists_cases [OF this] assms(2,3) show ?thesis
    by auto
qed

lemma deleted_event_waits:
  assumes "wf_db (job_db s)" and "jobs_pc s = Idle" and "event_type event = ''DELETED''"
    and "map_of (job_db s) (event_job_name event) \<noteq> None"
    and "\<not> tombstoned s (event_job_name event)"
  shows "step (JobEvent event) s = Normal (s\<lparr>jobs_pc := WaitPod (event_job_name event)\<rparr>)"
proof -
  from wf_db_jobs [OF assms(1)] obtain us
    where us: "select_jobs not_deleted (job_db s) (map fst (job_db s)) = Inr us"
    by blast
  from assms(4) obtain job where job: "map_of (job_db s) (event_job_name event) = Some job"
    by blast
  have "event_job_name event \<in> fst ` set (job_db s)"
    using job by (metis map_of_eq_None_iff option.distinct(1))
  moreover have "not_deleted job = Inr True"
    using wf_db_known(1) [OF assms(1) job] assms(5) job
    by (auto simp: not_deleted_def py_item_def py_in_def tombstoned_def field_of_def
        db_field_def split: option.splits)
  ultimately have "event_job_name event \<in> set us"
    using job by (simp add: select_jobs_mem [OF us])
  with us assms(2,3) show ?thesis
    by (simp add: watch_jobs_event_def)
qed

lemma poll_pod_step:
  assumes "jobs_pc s = WaitPod n" and "map_of (job_db s) n \<noteq> None"
  shows "step PollPod s =
     Normal (if (case field_of s n ''pod'' of None \<Rightarrow> False | Some v \<Rightarrow> truthy v)
             then s\<lparr>jobs_pc := WaitGone n\<rparr> else s)"
  using assms
  by (auto simp: poll_pod_def py_item_def py_get_def field_of_def db_field_def
      split: option.splits)

lemma poll_exists_True_step:
  "jobs_pc s = WaitGone n \<Longrightarrow>
   step (PollExists True) s = Normal (s\<lparr>calls := calls s @ [JobExists n]\<rparr>)"
  by (simp add: poll_exists_def)

lemma poll_exists_False_step:
  assumes "jobs_pc s = WaitGone n" and "field_of s n ''pod'' = Some (PPod p)"
  shows "\<exists>s'. step (PollExists False) s = Normal s'
     \<and> calls s' = calls s @ [JobExists n, DeletePod (pod_name p)]
     \<and> field_of s' n ''deleted'' = Some (PBool True) \<and> jobs_pc s' = Idle"
proof -
  from assms(2) obtain job where job: "map_of (job_db s) n = Some job"
    and pod: "map_of job ''pod'' = Some (PPod p)"
    by (auto simp: field_of_def db_field_def split: option.splits)
  then show ?thesis
    using assms(1)
    by (simp add: poll_exists_def Let_def get_field_known set_field_known py_item_def
        field_of_def db_field_def map_of_py_set)
qed


section \<open>Runs on the concrete inputs\<close>

lemma job_name_of_pod_examples:
  "job_name_of_pod ''a1-b2-x7'' = ''a1-b2''"
  "job_name_of_pod ''a1-b2-q9'' = ''a1-b2''"
  by (simp_all add: job_name_of_pod_def)

lemmas eval_defs = watch_pods_event_def watch_jobs_event_def not_deleted_def
  not_deleted_nor_failed_def py_item_def py_get_def py_set_def py_in_def store_pod_def
  take_note_def note_restarts_def escalate_def request_logs_def store_logs_def pods_guard_def
  pods_proceed_def pods_logs_return_def except_KeyError_def set_field_def get_field_def py_ge_def
  py_gt0_def job_succeeded_def job_failed_def opt_get_def poll_pod_def poll_exists_def
  field_of_def db_field_def tombstoned_def Let_def job_record_def wf_db_def
  job_name_of_pod_examples

section \<open>The status of a job along a run\<close>

text \<open>
  A job that a job event set to succeeded is set to failed by a later pod event that
  reports three restarts and the exit code 1: the pod watcher leaves out only the jobs that
  are tombstoned or failed.
\<close>

theorem succeeded_then_failed:
  "run [JobEvent ev_succeeded] st_started = Normal st_succeeded
   \<and> field_of st_succeeded ''a1-b2'' ''status'' = Some (PStr ''succeeded'')
   \<and> run [PodEvent ev_crashed, PodProceed, PodLogsReturn] st_succeeded
       = Normal st_succeeded_failed
   \<and> field_of st_succeeded_failed ''a1-b2'' ''status'' = Some (PStr ''failed'')"
  by (simp add: eval_defs
      ev_succeeded_def st_started_def st_succeeded_def ev_crashed_def pod_crashed_def
      st_succeeded_failed_def)

text \<open>
  C1, as amended. Along every run of the two watchers, interleaved in any order, the
  status of a job is what it was or has been set to succeeded or failed, and a tombstoned
  job stays tombstoned. Each watcher tests the tombstone when it takes an event: the status
  of a tombstoned job that has not passed the guard of a pod event still being handled is
  never written, and the job passes no guard any more.
\<close>

theorem status_changes:
  assumes "final (run as s) = Some s'"
  shows "(field_of s' j ''status'' = field_of s j ''status''
          \<or> field_of s' j ''status'' = Some (PStr ''succeeded'')
          \<or> field_of s' j ''status'' = Some (PStr ''failed''))
         \<and> (tombstoned s j \<longrightarrow> tombstoned s' j)
         \<and> (tombstoned s j \<and> \<not> guard_passed s j \<longrightarrow>
              field_of s' j ''status'' = field_of s j ''status'' \<and> \<not> guard_passed s' j)"
  using assms
proof (induction as arbitrary: s)
  case Nil
  then show ?case by simp
next
  case (Cons a as)
  from Cons.prems obtain s1 where s1: "final (step a s) = Some s1"
    and rest: "s' = s1 \<or> final (run as s1) = Some s'"
    by (rule run_Cons_final)
  note one = step_effect(1) [OF s1, of j] step_effect(2) [OF s1, of j]
    step_effect(4) [OF s1, of j]
  from rest show ?case
  proof
    assume "s' = s1"
    with one show ?thesis by auto
  next
    assume "final (run as s1) = Some s'"
    from Cons.IH [OF this] one show ?thesis by auto
  qed
qed

theorem status_changes_witness:
  "tombstoned st_tombstoned ''a1-b2'' \<and> \<not> guard_passed st_tombstoned ''a1-b2''
   \<and> final (run [PodEvent ev_crashed, PodProceed, JobEvent ev_succeeded] st_tombstoned)
       = Some st_tombstoned
   \<and> field_of st_tombstoned ''a1-b2'' ''status'' = Some (PStr ''started'')"
proof -
  have r: "final (run [PodEvent ev_crashed, PodProceed, JobEvent ev_succeeded] st_tombstoned)
           = Some st_tombstoned"
    by (simp add: eval_defs
      st_tombstoned_def ev_crashed_def pod_crashed_def ev_succeeded_def pod_pending_def)
  have t: "tombstoned st_tombstoned ''a1-b2''" "\<not> guard_passed st_tombstoned ''a1-b2''"
    by (simp_all add: eval_defs guard_passed_def st_tombstoned_def)
  from status_changes [OF r, of "''a1-b2''"] r t show ?thesis
    by (simp add: eval_defs st_tombstoned_def)
qed

text \<open>The other way round: a job event that reports success sets a failed job to succeeded.\<close>

lemma failed_then_succeeded:
  "field_of st_escalated ''a1-b2'' ''status'' = Some (PStr ''failed'')
   \<and> run [JobEvent ev_succeeded] st_escalated = Normal st_escalated_succeeded
   \<and> field_of st_escalated_succeeded ''a1-b2'' ''status'' = Some (PStr ''succeeded'')"
  by (simp add: eval_defs
      st_escalated_def st_escalated_succeeded_def ev_succeeded_def pod_pending_def)

text \<open>
  The guard is not read again: when the job watcher sets the tombstone while the pod
  watcher waits for the log of the job's pod, the pod watcher sets the tombstoned job to
  failed once the log is there.
\<close>

lemma tombstoned_while_in_logs:
  "run [PodEvent ev_crashed, PodProceed, PollExists False] st_waiting_gone
     = Normal st_tombstoned_in_logs
   \<and> tombstoned st_tombstoned_in_logs ''a1-b2''
   \<and> guard_passed st_tombstoned_in_logs ''a1-b2''
   \<and> field_of st_tombstoned_in_logs ''a1-b2'' ''status'' = Some (PStr ''started'')
   \<and> run [PodLogsReturn] st_tombstoned_in_logs = Normal st_tombstoned_failed
   \<and> field_of st_tombstoned_failed ''a1-b2'' ''status'' = Some (PStr ''failed'')"
  by (simp add: eval_defs guard_passed_def
      st_waiting_gone_def st_tombstoned_in_logs_def st_tombstoned_failed_def ev_crashed_def
      pod_crashed_def pod_pending_def)

section \<open>The pod reference\<close>

text \<open>
  C6. Once a job holds a pod reference, it holds the same reference after every run of the
  two watchers, whatever pods the later events are about.
\<close>

theorem pod_reference_kept:
  assumes "final (run as s) = Some s'"
    and "field_of s j ''pod'' = Some (PPod p)"
  shows "field_of s' j ''pod'' = Some (PPod p)"
  using assms
proof (induction as arbitrary: s)
  case Nil
  then show ?case by simp
next
  case (Cons a as)
  from Cons.prems(1) obtain s1 where s1: "final (step a s) = Some s1"
    and rest: "s' = s1 \<or> final (run as s1) = Some s'"
    by (rule run_Cons_final)
  have one: "field_of s1 j ''pod'' = Some (PPod p)"
    using step_effect(3) [OF s1 Cons.prems(2)] by simp
  from rest show ?case
  proof
    assume "s' = s1"
    with one show ?thesis by simp
  next
    assume "final (run as s1) = Some s'"
    from Cons.IH [OF this one] show ?thesis .
  qed
qed


theorem pod_reference_kept_witness:
  "final (run [PodEvent ev_running, PodProceed, PodEvent ev_crashed, PodProceed, PodLogsReturn]
            st_pending) = Some st_escalated
   \<and> field_of st_pending ''a1-b2'' ''pod'' = Some (PPod pod_pending)
   \<and> field_of st_escalated ''a1-b2'' ''pod'' = Some (PPod pod_pending)"
proof -
  have r: "final (run [PodEvent ev_running, PodProceed, PodEvent ev_crashed, PodProceed,
                       PodLogsReturn] st_pending) = Some st_escalated"
    by (simp add: eval_defs
      ev_running_def pod_running_def ev_crashed_def pod_crashed_def st_pending_def
      st_escalated_def pod_pending_def)
  have p: "field_of st_pending ''a1-b2'' ''pod'' = Some (PPod pod_pending)"
    by (simp add: eval_defs
      ev_running_def pod_running_def ev_crashed_def pod_crashed_def st_pending_def
      st_escalated_def pod_pending_def)
  from pod_reference_kept [OF r p] r p show ?thesis
    by simp
qed

section \<open>The escalation rule\<close>

text \<open>
  C2. A pod event for a job that is not tombstoned and not failed, whose pod reports a
  restart count of at least the job's \<open>max_restart_count\<close> and a positive exit code, is
  handled without an exception: the log is stored in the job, the status is failed, and
  the calls to the backend are the request for the log and one deletion of the workload;
  the same event again, any number of times, changes nothing and calls nothing.
\<close>

theorem escalation_once:
  assumes "wf_db (job_db s)"
    and "job_name_of_pod (pod_name (event_pod event)) = j"
    and "reported (event_pod event) = Some (restarts, Some exit_code)"
    and "0 < exit_code"
    and "\<not> tombstoned s j"
    and "field_of s j ''status'' \<noteq> Some (PStr ''failed'')"
    and "field_of s j ''max_restart_count'' = Some (PInt m)" and "m \<le> restarts"
    and "field_of s j ''obj'' = Some (PJob h)"
  shows "\<exists>s'. watch_pods_event event s = Normal s'
      \<and> field_of s' j ''log'' = Some (PStr (event_pod_logs event))
      \<and> field_of s' j ''status'' = Some (PStr ''failed'')
      \<and> field_of s' j ''restart_count'' = Some (PInt restarts)
      \<and> calls s' = calls s @ [PodLogs (pod_name (event_pod event)), DeleteJob h]
      \<and> (\<forall>n. watch_pods (replicate n event) s' = Normal s')"
proof -
  let ?p = "event_pod event"
  let ?s1 = "store_pod ?p j s"
  from assms(9) obtain job where job: "map_of (job_db s) j = Some job"
    by (auto simp: field_of_def db_field_def split: option.splits)
  with assms(5-7,9) have jobf: "\<not> truthy (py_get job ''deleted'')"
    "map_of job ''status'' \<noteq> Some (PStr ''failed'')"
    "map_of job ''max_restart_count'' = Some (PInt m)" "map_of job ''obj'' = Some (PJob h)"
    by (auto simp: field_of_def db_field_def tombstoned_def py_get_def split: option.splits)
  from unended_pods_mem [OF assms(1) job] jobf obtain us
    where us: "select_jobs not_deleted_nor_failed (job_db s) (map fst (job_db s)) = Inr us"
      and mem: "j \<in> set us"
    by metis
  from store_pod_lookup [OF job, of ?p j] obtain job1
    where job1: "map_of (job_db ?s1) j = Some job1"
      and same: "\<And>k. k \<noteq> ''pod'' \<Longrightarrow> map_of job1 k = map_of job k"
      and pod1: "truthy (py_get job1 ''pod'')"
    by auto
  let ?job' = "py_set (py_set (py_set job1 ''restart_count'' (PInt restarts))
                     ''log'' (PStr (event_pod_logs event)))
             ''status'' (PStr ''failed'')"
  define s' where "s' = ?s1\<lparr>calls := calls ?s1 @ [PodLogs (pod_name ?p)],
        job_db := py_set (job_db ?s1) j ?job',
        calls := calls ?s1 @ [PodLogs (pod_name ?p)] @ [DeleteJob h]\<rparr>"
  have tn: "take_note event j ?s1 = (None, s')"
    unfolding s'_def using job1 assms(3,4,8) jobf
    by (intro take_note_escalates [where m = m]) (simp_all add: same)
  have first: "watch_pods_event event s = Normal s'"
    using us mem tn assms(2)
    by (simp add: watch_pods_event_def Let_def except_KeyError_def)
  have job': "map_of (job_db s') j = Some ?job'"
    by (simp add: s'_def map_of_py_set)
  have wf': "wf_db (job_db s')"
    using wf_db_store_pod [OF assms(1), of ?p j] wf_db_known [OF wf_db_store_pod [OF assms(1)] job1]
    by (simp add: s'_def wf_db_py_set_job py_in_py_set)
  have pod': "truthy (py_get ?job' ''pod'')"
    using pod1 by (simp add: py_get_def map_of_py_set)
  from unended_pods_mem [OF wf' job'] obtain us'
    where us': "select_jobs not_deleted_nor_failed (job_db s') (map fst (job_db s')) = Inr us'"
      and mem': "j \<notin> set us'"
    by (auto simp: map_of_py_set)
  have again: "watch_pods_event event s' = Normal s'"
    using us' mem' assms(2) store_pod_attached [OF job' pod', of ?p]
    by (simp add: watch_pods_event_def Let_def)
  have rep: "watch_pods (replicate n event) s' = Normal s'" for n
    by (induction n) (simp_all add: again)
  have fields: "field_of s' j ''log'' = Some (PStr (event_pod_logs event))"
    "field_of s' j ''status'' = Some (PStr ''failed'')"
    "field_of s' j ''restart_count'' = Some (PInt restarts)"
    using job' by (simp_all add: field_of_def db_field_def map_of_py_set)
  have "calls s' = calls s @ [PodLogs (pod_name ?p), DeleteJob h]"
    by (simp add: s'_def)
  with first fields rep show ?thesis
    by blast
qed


theorem escalation_once_witness:
  "watch_pods_event ev_crashed st_pending = Normal st_escalated
   \<and> watch_pods (replicate 2 ev_crashed) st_escalated = Normal st_escalated
   \<and> calls st_escalated = calls st_pending @ [PodLogs ''a1-b2-x7'', DeleteJob ''a1-b2'']"
  using escalation_once [of st_pending ev_crashed "''a1-b2''" 3 1 3 "''a1-b2''"]
  by (simp add: eval_defs numeral_2_eq_2
      st_pending_def ev_crashed_def pod_crashed_def st_escalated_def pod_pending_def
      reported_def)

section \<open>Job events for jobs that have ended\<close>

text \<open>
  A job event that reports success for a job that is already succeeded, and not yet
  tombstoned, asks the backend to delete the workload again; for a job that is failed,
  and not yet tombstoned, it also sets the status to succeeded.
\<close>

theorem succeeded_event_replayed:
  "field_of st_succeeded ''a1-b2'' ''status'' = Some (PStr ''succeeded'')
   \<and> watch_jobs_event ev_succeeded st_succeeded = Normal st_succeeded_again
   \<and> calls st_succeeded_again = calls st_succeeded @ [DeleteJob ''a1-b2'']
   \<and> field_of st_escalated ''a1-b2'' ''status'' = Some (PStr ''failed'')
   \<and> watch_jobs_event ev_succeeded st_escalated = Normal st_escalated_succeeded
   \<and> calls st_escalated_succeeded = calls st_escalated @ [DeleteJob ''a1-b2'']"
  by (simp add: eval_defs
      st_succeeded_def ev_succeeded_def st_succeeded_again_def st_escalated_def
      st_escalated_succeeded_def pod_pending_def)

text \<open>
  C3, as amended. A job event for a tombstoned job leaves the state as it is, with no
  call to the backend, however often it is replayed.
\<close>

theorem tombstoned_job_event_ignored:
  assumes "wf_db (job_db s)" and "jobs_pc s = Idle"
    and "tombstoned s (event_job_name event)"
  shows "watch_jobs_event event s = Normal s
         \<and> (\<forall>n. run (replicate n (JobEvent event)) s = Normal s)"
proof -
  from unended_jobs_mem [OF assms(1)] obtain us
    where us: "select_jobs not_deleted (job_db s) (map fst (job_db s)) = Inr us"
      and nt: "\<And>j. j \<in> set us \<Longrightarrow> \<not> tombstoned s j"
    by blast
  from nt assms(3) have "event_job_name event \<notin> set us"
    by blast
  with us have one: "watch_jobs_event event s = Normal s"
    by (simp add: watch_jobs_event_def)
  have "run (replicate n (JobEvent event)) s = Normal s" for n
    by (induction n) (simp_all add: one assms(2))
  with one show ?thesis
    by blast
qed


theorem tombstoned_job_event_ignored_witness:
  "watch_jobs_event ev_succeeded st_tombstoned = Normal st_tombstoned
   \<and> watch_jobs_event ev_deleted st_tombstoned = Normal st_tombstoned
   \<and> run (replicate 3 (JobEvent ev_deleted)) st_tombstoned = Normal st_tombstoned"
  using tombstoned_job_event_ignored [of st_tombstoned ev_succeeded]
    tombstoned_job_event_ignored [of st_tombstoned ev_deleted]
  by (simp add: eval_defs
      ev_succeeded_def ev_deleted_def st_tombstoned_def pod_pending_def)

section \<open>Pod events with a partial status\<close>

text \<open>
  The first event of a pod that has no container status yet is not only skipped: the pod
  is attached to the job, which had none.
\<close>

theorem partial_status_attaches_pod:
  "status_key_missing (event_pod ev_pending)
   \<and> watch_pods_event ev_pending st_started = Normal st_pending
   \<and> field_of st_started ''a1-b2'' ''pod'' = None
   \<and> field_of st_pending ''a1-b2'' ''pod'' = Some (PPod pod_pending)"
  by (simp add: eval_defs
      ev_pending_def pod_pending_def st_started_def st_pending_def
      status_key_missing_def)

text \<open>
  C5, as amended. When a key that the pod watcher reads is missing in the pod's status,
  or the first container reports a restart count below the job's \<open>max_restart_count\<close> and
  no exit code, the event is handled without an exception and without a call to the
  backend; in the table nothing changes but the \<open>pod\<close> of the pod's job, set to this pod if
  the job had none, and, in the second case, its \<open>restart_count\<close>.
\<close>

theorem partial_status_skipped:
  assumes "wf_db (job_db s)"
    and "status_key_missing (event_pod event)
         \<or> (\<exists>restarts m. reported (event_pod event) = Some (restarts, None)
               \<and> field_of s (job_name_of_pod (pod_name (event_pod event))) ''max_restart_count''
                   = Some (PInt m)
               \<and> restarts < m)"
  shows "\<exists>s'. watch_pods_event event s = Normal s'
     \<and> calls s' = calls s \<and> jobs_pc s' = jobs_pc s
     \<and> (\<forall>j k. k \<noteq> ''pod'' \<and> k \<noteq> ''restart_count'' \<longrightarrow> field_of s' j k = field_of s j k)
     \<and> (\<forall>j. field_of s' j ''pod'' = field_of s j ''pod''
            \<or> (j = job_name_of_pod (pod_name (event_pod event))
               \<and> (case field_of s j ''pod'' of None \<Rightarrow> True | Some v \<Rightarrow> \<not> truthy v)
               \<and> field_of s' j ''pod'' = Some (PPod (event_pod event))))
     \<and> (\<forall>j. field_of s' j ''restart_count'' = field_of s j ''restart_count''
            \<or> (j = job_name_of_pod (pod_name (event_pod event))
               \<and> (\<exists>restarts. reported (event_pod event) = Some (restarts, None)
                     \<and> field_of s' j ''restart_count'' = Some (PInt restarts))))"
proof -
  let ?p = "event_pod event"
  let ?n = "job_name_of_pod (pod_name ?p)"
  let ?s1 = "store_pod ?p ?n s"
  from wf_db_pods [OF assms(1)] obtain us
    where us: "select_jobs not_deleted_nor_failed (job_db s) (map fst (job_db s)) = Inr us"
    by blast
  have s1: "calls ?s1 = calls s" "jobs_pc ?s1 = jobs_pc s"
    "\<And>j k. k \<noteq> ''pod'' \<Longrightarrow> field_of ?s1 j k = field_of s j k"
    "\<And>j. field_of ?s1 j ''pod'' = field_of s j ''pod''
            \<or> (j = ?n \<and> (case field_of s j ''pod'' of None \<Rightarrow> True | Some v \<Rightarrow> \<not> truthy v)
               \<and> field_of ?s1 j ''pod'' = Some (PPod ?p))"
    by (auto simp: store_pod_field)
  show ?thesis
  proof (cases "?n \<in> set us")
    case False
    with us have "watch_pods_event event s = Normal ?s1"
      by (simp add: watch_pods_event_def Let_def)
    with s1 show ?thesis
      by auto
  next
    case True
    from assms(2) show ?thesis
    proof
      assume "status_key_missing ?p"
      with us True have "watch_pods_event event s = Normal ?s1"
        by (simp add: watch_pods_event_def Let_def take_note_key_missing except_KeyError_def)
      with s1 show ?thesis
        by auto
    next
      assume "\<exists>restarts m. reported ?p = Some (restarts, None)
               \<and> field_of s ?n ''max_restart_count'' = Some (PInt m) \<and> restarts < m"
      then obtain restarts m where r: "reported ?p = Some (restarts, None)"
        and m: "field_of s ?n ''max_restart_count'' = Some (PInt m)" and lt: "restarts < m"
        by blast
      from m obtain job where job: "map_of (job_db s) ?n = Some job"
        and jm: "map_of job ''max_restart_count'' = Some (PInt m)"
        by (auto simp: field_of_def db_field_def split: option.splits)
      from store_pod_lookup [OF job, of ?p ?n] obtain job1
        where job1: "map_of (job_db ?s1) ?n = Some job1"
          and same: "\<And>k. k \<noteq> ''pod'' \<Longrightarrow> map_of job1 k = map_of job k"
        by auto
      define s' where
        "s' = ?s1\<lparr>job_db := py_set (job_db ?s1) ?n (py_set job1 ''restart_count'' (PInt restarts))\<rparr>"
      have "take_note event ?n ?s1 = (None, s')"
        unfolding s'_def using job1 r lt
        by (intro take_note_below_max [where m = m]) (simp_all add: same jm)
      with us True have w: "watch_pods_event event s = Normal s'"
        by (simp add: watch_pods_event_def Let_def except_KeyError_def)
      have f: "field_of s' j k =
                 (if j = ?n \<and> k = ''restart_count'' then Some (PInt restarts)
                  else field_of ?s1 j k)" for j k
        using job1
        by (auto simp: s'_def field_of_def db_field_def map_of_py_set)
      have "calls s' = calls s" "jobs_pc s' = jobs_pc s"
        by (simp_all add: s'_def)
      with w r f s1 show ?thesis
        by (intro exI [of _ s']) (simp add: s1(3))
    qed
  qed
qed


theorem partial_status_skipped_witness:
  "watch_pods_event ev_pending st_pending = Normal st_pending
   \<and> watch_pods_event ev_running st_pending = Normal st_restarted
   \<and> field_of st_restarted ''a1-b2'' ''restart_count'' = Some (PInt 1)"
  using partial_status_skipped [of st_pending ev_pending]
    partial_status_skipped [of st_pending ev_running]
  by (simp add: eval_defs
      st_pending_def ev_pending_def ev_running_def pod_pending_def pod_running_def
      st_restarted_def status_key_missing_def reported_def)

text \<open>
  Two partial statuses are not skipped, since the \<open>try\<close> catches \<open>KeyError\<close> only: an
  empty list of container statuses raises \<open>IndexError\<close>, and three restarts with no
  terminated state compare \<open>None\<close> with 0 after the restart count has been recorded.
\<close>

lemma partial_status_raises:
  "watch_pods_event ev_no_statuses st_pending = Raised IndexError st_pending
   \<and> watch_pods_event ev_backoff st_pending = Raised TypeError st_backoff"
  by (simp add: eval_defs
      ev_no_statuses_def pod_no_statuses_def ev_backoff_def pod_backoff_def
      st_pending_def st_backoff_def pod_pending_def)

section \<open>Handling a deletion event\<close>

text \<open>
  C4. A step of the two watchers that deletes a pod or sets a tombstone is a pass of the
  loop \<open>while job.exists()\<close> in which the backend answers that the workload is gone,
  taken by the job watcher while it handles the deletion event of that job, whose record
  holds a pod reference; the pod deleted is that pod. That loop is entered only from the
  loop that waits for the pod reference, by a pass that finds the reference in the record,
  and the waiting starts only with a \<open>DELETED\<close> event for a job that is not tombstoned.
  The handling goes on as far as the pod and the backend allow: the event starts the
  wait, a pass of the first loop moves on if and only if the record holds a pod reference,
  a pass of the second loop with the workload still there only asks again, and with the
  workload gone it deletes the pod and sets \<open>deleted\<close> to \<open>True\<close>.
\<close>

theorem deletion_waits_for_pod_and_absence:
  "(final (step a s) = Some s'
      \<and> (filter is_DeletePod (calls s') \<noteq> filter is_DeletePod (calls s)
         \<or> (tombstoned s' j \<and> \<not> tombstoned s j)) \<longrightarrow>
    (\<exists>n p. a = PollExists False \<and> jobs_pc s = WaitGone n
       \<and> field_of s n ''pod'' = Some (PPod p)
       \<and> calls s' = calls s @ [JobExists n, DeletePod (pod_name p)]
       \<and> (tombstoned s' j \<and> \<not> tombstoned s j \<longrightarrow> j = n)))
   \<and> (final (step a s) = Some s' \<and> jobs_pc s' = WaitGone n \<and> jobs_pc s \<noteq> WaitGone n \<longrightarrow>
        a = PollPod \<and> jobs_pc s = WaitPod n
        \<and> (\<exists>v. field_of s n ''pod'' = Some v \<and> truthy v))
   \<and> (final (step a s) = Some s' \<and> jobs_pc s' = WaitPod n \<and> jobs_pc s \<noteq> WaitPod n \<longrightarrow>
        (\<exists>event. a = JobEvent event \<and> event_type event = ''DELETED''
           \<and> event_job_name event = n \<and> jobs_pc s = Idle \<and> \<not> tombstoned s n))
   \<and> (wf_db (job_db s) \<and> jobs_pc s = Idle \<and> event_type event = ''DELETED''
        \<and> map_of (job_db s) (event_job_name event) \<noteq> None
        \<and> \<not> tombstoned s (event_job_name event) \<longrightarrow>
        step (JobEvent event) s = Normal (s\<lparr>jobs_pc := WaitPod (event_job_name event)\<rparr>))
   \<and> (jobs_pc s = WaitPod n \<and> map_of (job_db s) n \<noteq> None \<longrightarrow>
        step PollPod s =
          Normal (if (case field_of s n ''pod'' of None \<Rightarrow> False | Some v \<Rightarrow> truthy v)
                  then s\<lparr>jobs_pc := WaitGone n\<rparr> else s))
   \<and> (jobs_pc s = WaitGone n \<longrightarrow>
        step (PollExists True) s = Normal (s\<lparr>calls := calls s @ [JobExists n]\<rparr>))
   \<and> (jobs_pc s = WaitGone n \<and> field_of s n ''pod'' = Some (PPod p) \<longrightarrow>
        (\<exists>s''. step (PollExists False) s = Normal s''
           \<and> calls s'' = calls s @ [JobExists n, DeletePod (pod_name p)]
           \<and> field_of s'' n ''deleted'' = Some (PBool True) \<and> jobs_pc s'' = Idle))"
proof (intro conjI impI)
  assume "final (step a s) = Some s'
      \<and> (filter is_DeletePod (calls s') \<noteq> filter is_DeletePod (calls s)
         \<or> (tombstoned s' j \<and> \<not> tombstoned s j))"
  then show "\<exists>n p. a = PollExists False \<and> jobs_pc s = WaitGone n
       \<and> field_of s n ''pod'' = Some (PPod p)
       \<and> calls s' = calls s @ [JobExists n, DeletePod (pod_name p)]
       \<and> (tombstoned s' j \<and> \<not> tombstoned s j \<longrightarrow> j = n)"
    using step_deletes_pod [of a s s' j] by blast
next
  assume h: "final (step a s) = Some s' \<and> jobs_pc s' = WaitGone n \<and> jobs_pc s \<noteq> WaitGone n"
  from h show "a = PollPod"
    using step_enters_WaitGone [of a s s' n] by blast
  from h show "jobs_pc s = WaitPod n"
    using step_enters_WaitGone [of a s s' n] by blast
  from h show "\<exists>v. field_of s n ''pod'' = Some v \<and> truthy v"
    using step_enters_WaitGone [of a s s' n] by blast
next
  assume "final (step a s) = Some s' \<and> jobs_pc s' = WaitPod n \<and> jobs_pc s \<noteq> WaitPod n"
  then show "\<exists>event. a = JobEvent event \<and> event_type event = ''DELETED''
           \<and> event_job_name event = n \<and> jobs_pc s = Idle \<and> \<not> tombstoned s n"
    using step_enters_WaitPod [of a s s' n] by blast
next
  assume "wf_db (job_db s) \<and> jobs_pc s = Idle \<and> event_type event = ''DELETED''
        \<and> map_of (job_db s) (event_job_name event) \<noteq> None
        \<and> \<not> tombstoned s (event_job_name event)"
  then show "step (JobEvent event) s = Normal (s\<lparr>jobs_pc := WaitPod (event_job_name event)\<rparr>)"
    using deleted_event_waits [of s event] by blast
next
  assume "jobs_pc s = WaitPod n \<and> map_of (job_db s) n \<noteq> None"
  then show "step PollPod s =
          Normal (if (case field_of s n ''pod'' of None \<Rightarrow> False | Some v \<Rightarrow> truthy v)
                  then s\<lparr>jobs_pc := WaitGone n\<rparr> else s)"
    using poll_pod_step [of s n] by blast
next
  assume "jobs_pc s = WaitGone n"
  then show "step (PollExists True) s = Normal (s\<lparr>calls := calls s @ [JobExists n]\<rparr>)"
    by (rule poll_exists_True_step)
next
  assume "jobs_pc s = WaitGone n \<and> field_of s n ''pod'' = Some (PPod p)"
  then show "\<exists>s''. step (PollExists False) s = Normal s''
           \<and> calls s'' = calls s @ [JobExists n, DeletePod (pod_name p)]
           \<and> field_of s'' n ''deleted'' = Some (PBool True) \<and> jobs_pc s'' = Idle"
    using poll_exists_False_step [of s n p] by blast
qed

text \<open>
  The deletion event arrives before the first pod event: the job watcher waits, the pod
  watcher attaches the pod, the backend says once that the workload is still there and
  then that it is gone, and only then the pod is deleted and the job tombstoned.
\<close>

theorem deletion_waits_for_pod_and_absence_witness:
  "run [JobEvent ev_deleted, PollPod] st_started = Normal (st_started\<lparr>jobs_pc := WaitPod ''a1-b2''\<rparr>)
   \<and> run [JobEvent ev_deleted, PollPod, PodEvent ev_pending, PodProceed, PollPod,
           PollExists True] st_started = Normal st_waiting_gone
   \<and> step (PollExists False) st_waiting_gone = Normal st_tombstoned
   \<and> tombstoned st_tombstoned ''a1-b2'' \<and> \<not> tombstoned st_waiting_gone ''a1-b2''
   \<and> calls st_tombstoned = calls st_waiting_gone @ [JobExists ''a1-b2'', DeletePod ''a1-b2-x7'']"
  using deletion_waits_for_pod_and_absence
          [of "PollExists False" st_waiting_gone st_tombstoned "''a1-b2''" "''a1-b2''"
              ev_deleted pod_pending]
        deletion_waits_for_pod_and_absence
          [of "JobEvent ev_deleted" st_started "st_started\<lparr>jobs_pc := WaitPod ''a1-b2''\<rparr>"
              "''a1-b2''" "''a1-b2''" ev_deleted pod_pending]
        deletion_waits_for_pod_and_absence
          [of PollPod "st_pending\<lparr>jobs_pc := WaitPod ''a1-b2''\<rparr>"
              "st_pending\<lparr>jobs_pc := WaitGone ''a1-b2''\<rparr>"
              "''a1-b2''" "''a1-b2''" ev_deleted pod_pending]
  by (simp add: eval_defs
      ev_deleted_def st_started_def ev_pending_def pod_pending_def st_waiting_gone_def
      st_tombstoned_def st_pending_def)

end
